theory Spec2Isabelle
  imports Main "HOL-Library.Word"
begin

unbundle bit_operations_syntax

text \<open>
  The credential-lifecycle core of the API gateway: the cache of synthetic identity
  strings (\<^verbatim>\<open>cachedUserID\<close>), the management handler that forces the refresh of one
  credential (\<^verbatim>\<open>PostForceRefreshTokens\<close>), and the admission gate of the background
  scheduler. The source files hold the cache and the handler twice each, in two revisions
  of the same function; both are modelled, under the names \<open>cachedUserID\<close> and
  \<open>cachedUserID_apiKey\<close>, \<open>PostForceRefreshTokens\<close> and \<open>PostForceRefreshTokens_ginH\<close>.
\<close>

section \<open>Strings and time\<close>

text \<open>
  Go strings are modelled as \<^typ>\<open>string\<close>, one \<^typ>\<open>char\<close> per byte. The three functions of
  package \<^verbatim>\<open>strings\<close> that the handlers call are modelled on ASCII text: the white space
  of \<^verbatim>\<open>strings.TrimSpace\<close> is the six ASCII characters tab, line feed, vertical tab, form
  feed, carriage return and space, and the case mapping of \<^verbatim>\<open>strings.ToLower\<close> and
  \<^verbatim>\<open>strings.EqualFold\<close> is the one of the letters A to Z. Bytes from 128 on are left
  alone, so the model agrees with Go on ASCII strings.
\<close>

definition isSpace :: "char \<Rightarrow> bool" where
  "isSpace c = (c \<in> set [CHR 0x09, CHR 0x0A, CHR 0x0B, CHR 0x0C, CHR 0x0D, CHR '' ''])"

definition TrimSpace :: "string \<Rightarrow> string" where
  "TrimSpace s = rev (dropWhile isSpace (rev (dropWhile isSpace s)))"

definition upperLetters :: string where
  "upperLetters = ''ABCDEFGHIJKLMNOPQRSTUVWXYZ''"

definition lowerLetters :: string where
  "lowerLetters = ''abcdefghijklmnopqrstuvwxyz''"

definition toLowerChar :: "char \<Rightarrow> char" where
  "toLowerChar c = (case map_of (zip upperLetters lowerLetters) c of Some l \<Rightarrow> l | None \<Rightarrow> c)"

definition ToLower :: "string \<Rightarrow> string" where
  "ToLower s = map toLowerChar s"

definition EqualFold :: "string \<Rightarrow> string \<Rightarrow> bool" where
  "EqualFold s t = (ToLower s = ToLower t)"

text \<open>
  A \<^verbatim>\<open>time.Time\<close> is an instant, counted in nanoseconds from Go's zero time, so that
  \<^verbatim>\<open>time.Time{}\<close> is 0, \<^verbatim>\<open>a.Before(b)\<close> is \<open>a < b\<close> and \<^verbatim>\<open>a.After(b)\<close> is \<open>b < a\<close>.
  The result of \<^verbatim>\<open>time.Now()\<close> is an argument of each function that reads the clock.
\<close>

type_synonym time = int

definition zeroTime :: time where
  "zeroTime = 0"

definition userIDTTL :: int where
  "userIDTTL = 3600 * 1000000000"

definition userIDCacheCleanupPeriod :: int where
  "userIDCacheCleanupPeriod = 15 * 60 * 1000000000"

section \<open>Identity strings\<close>

text \<open>
  The random bytes that one call of the generator reads are an argument: byte \<open>i\<close> of the
  draw is \<open>rnd i\<close>.
\<close>

type_synonym entropy = "nat \<Rightarrow> 8 word"

text \<open>
  \<^verbatim>\<open>hex.EncodeToString\<close> of the Go library and the string form of a UUID (five groups of
  4, 2, 2, 2 and 6 bytes in hex, joined by hyphens), which the generator below uses.
\<close>

definition hextable :: string where
  "hextable = ''0123456789abcdef''"

definition hex_byte :: "8 word \<Rightarrow> string" where
  "hex_byte v = [hextable ! unat (drop_bit 4 v), hextable ! unat (v AND 0x0f)]"

definition EncodeToString :: "8 word list \<Rightarrow> string" where
  "EncodeToString bs = concat (map hex_byte bs)"

definition uuid_String :: "8 word list \<Rightarrow> string" where
  "uuid_String u =
     EncodeToString (take 4 u) @ ''-'' @ EncodeToString (take 2 (drop 4 u)) @ ''-'' @
     EncodeToString (take 2 (drop 6 u)) @ ''-'' @ EncodeToString (take 2 (drop 8 u)) @ ''-'' @
     EncodeToString (take 6 (drop 10 u))"

text \<open>
  Modelled from the spec: \<^verbatim>\<open>generateFakeUserID\<close> is called by \<^verbatim>\<open>cachedUserID\<close> and is not
  among the source files. The spec gives its result as a fixed textual prefix, a
  64-character lowercase-hex digest, a fixed separator and a UUID-formatted session
  segment; the prefix \<^verbatim>\<open>user_\<close> and the separator \<^verbatim>\<open>_account__session_\<close> are the ones of
  the pattern in \<^verbatim>\<open>runE2ETest\<close>. The digest is the hex encoding of 32 random bytes, the
  session segment the 8-4-4-4-12 hex form of 16 more.
\<close>

definition generateFakeUserID :: "entropy \<Rightarrow> string" where
  "generateFakeUserID rnd =
     ''user_'' @ EncodeToString (map rnd [0..<32]) @ ''_account__session_'' @
     uuid_String (map rnd [32..<48])"

definition is_lower_hex :: "char \<Rightarrow> bool" where
  "is_lower_hex c = (c \<in> set hextable)"

definition lit :: "string \<Rightarrow> string \<Rightarrow> string option" where
  "lit p s = (if take (length p) s = p then Some (drop (length p) s) else None)"

definition hexn :: "nat \<Rightarrow> string \<Rightarrow> string option" where
  "hexn n s =
     (if n \<le> length s \<and> list_all is_lower_hex (take n s) then Some (drop n s) else None)"

text \<open>
  Modelled from the spec: \<^verbatim>\<open>isValidUserID\<close> is called by \<^verbatim>\<open>cachedUserID\<close> and is not among
  the source files. It is the anchored match of the pattern written in \<^verbatim>\<open>runE2ETest\<close>,
  \<^verbatim>\<open>^user_[a-f0-9]{64}_account__session_[a-f0-9]{8}-[a-f0-9]{4}-[a-f0-9]{4}-[a-f0-9]{4}-[a-f0-9]{12}$\<close>,
  read from left to right: each step consumes a literal or a run of hex digits.
\<close>

definition isValidUserID :: "string \<Rightarrow> bool" where
  "isValidUserID userID =
     (Option.bind (Option.bind (Option.bind (Option.bind (Option.bind (Option.bind
      (Option.bind (Option.bind (Option.bind (Option.bind (Option.bind
        (lit ''user_'' userID)
        (hexn 64)) (lit ''_account__session_''))
        (hexn 8)) (lit ''-'')) (hexn 4)) (lit ''-'')) (hexn 4)) (lit ''-'')) (hexn 4))
        (lit ''-'')) (hexn 12) = Some [])"

text \<open>
  The pattern in the words of the spec: the prefix, a digest of 64 lowercase hex digits,
  the separator, and a session segment of five groups of 8, 4, 4, 4 and 12 lowercase hex
  digits joined by hyphens.
\<close>

definition hex_run :: "nat \<Rightarrow> string \<Rightarrow> bool" where
  "hex_run n d = (length d = n \<and> list_all is_lower_hex d)"

definition uuid_formatted :: "string \<Rightarrow> bool" where
  "uuid_formatted g =
     (\<exists>a b c d e. g = a @ ''-'' @ b @ ''-'' @ c @ ''-'' @ d @ ''-'' @ e \<and>
        hex_run 8 a \<and> hex_run 4 b \<and> hex_run 4 c \<and> hex_run 4 d \<and> hex_run 12 e)"

definition conforming :: "string \<Rightarrow> bool" where
  "conforming s =
     (\<exists>digest session. s = ''user_'' @ digest @ ''_account__session_'' @ session \<and>
        hex_run 64 digest \<and> uuid_formatted session)"

section \<open>The identity cache\<close>

record userIDCacheEntry =
  value' :: string
  expire :: time

type_synonym userIDCache = "string \<rightharpoonup> userIDCacheEntry"

text \<open>Reading a key that a Go map does not hold gives the zero value of the entry type.\<close>

definition zeroEntry :: userIDCacheEntry where
  "zeroEntry = \<lparr>value' = [], expire = zeroTime\<rparr>"

definition index :: "userIDCache \<Rightarrow> string \<Rightarrow> userIDCacheEntry" where
  "index c k = (case c k of None \<Rightarrow> zeroEntry | Some e \<Rightarrow> e)"

definition index_ok :: "userIDCache \<Rightarrow> string \<Rightarrow> userIDCacheEntry \<times> bool" where
  "index_ok c k = (case c k of None \<Rightarrow> (zeroEntry, False) | Some e \<Rightarrow> (e, True))"

text \<open>
  \<^verbatim>\<open>purgeExpiredUserIDs\<close> (both variants of the file): one pass over the map that deletes
  the entries whose expire lies before now.
\<close>

definition purgeExpiredUserIDs :: "time \<Rightarrow> userIDCache \<Rightarrow> userIDCache" where
  "purgeExpiredUserIDs now c =
     (\<lambda>key. case c key of
        None \<Rightarrow> None
      | Some entry \<Rightarrow> if expire entry < now then None else Some entry)"

text \<open>
  \<^verbatim>\<open>cachedUserID(provider, model)\<close> of \<^verbatim>\<open>internal/runtime/executor/user_id_cache.go\<close>. The
  global map is passed in and returned; the cleanup goroutine that the first call starts
  is \<open>purgeExpiredUserIDs\<close> on a timer and is not part of the call.
\<close>

definition cachedUserID ::
  "entropy \<Rightarrow> time \<Rightarrow> userIDCache \<Rightarrow> string \<Rightarrow> string \<Rightarrow> string \<times> userIDCache" where
  "cachedUserID rnd now c provider model =
     (if provider = [] \<or> model = [] then (generateFakeUserID rnd, c)
      else
        let key = provider @ ''|'' @ model;
            (entry, ok) = index_ok c key
        in if ok \<and> now < expire entry \<and> value' entry \<noteq> [] \<and> isValidUserID (value' entry)
           then (value' entry, c)
           else
             let newID = generateFakeUserID rnd
             in (newID, c(key \<mapsto> \<lparr>value' = newID, expire = now + userIDTTL\<rparr>)))"

text \<open>
  \<^verbatim>\<open>cachedUserID(apiKey)\<close>, the variant of the same file that is scoped by the client's
  API key (the second file body under \<^verbatim>\<open>internal/api/handlers/management/auth_refresh.go\<close>).
\<close>

definition cachedUserID_apiKey ::
  "entropy \<Rightarrow> time \<Rightarrow> userIDCache \<Rightarrow> string \<Rightarrow> string \<times> userIDCache" where
  "cachedUserID_apiKey rnd now c apiKey =
     (if apiKey = [] then (generateFakeUserID rnd, c)
      else
        let entry = index c apiKey;
            entry = (if value' entry = [] \<or> expire entry < now \<or> \<not> isValidUserID (value' entry)
                     then entry\<lparr>value' := generateFakeUserID rnd\<rparr> else entry);
            entry = entry\<lparr>expire := now + userIDTTL\<rparr>
        in (value' entry, c(apiKey \<mapsto> entry)))"

section \<open>Credential records, the manager and its executors\<close>

text \<open>
  Modelled from the spec: package \<^verbatim>\<open>coreauth\<close> (\<^verbatim>\<open>sdk/cliproxy/auth\<close>) declares \<^verbatim>\<open>Auth\<close> and
  \<^verbatim>\<open>Manager\<close>, and neither declaration is among the source files. The record has the
  fields that the spec lists for a credential record; the manager is the registry (the
  table of credential records in registration order) and the executor set. \<^verbatim>\<open>Metadata\<close> is a \<^verbatim>\<open>map[string]any\<close>, \<^verbatim>\<open>Runtime\<close> an \<^verbatim>\<open>any\<close> that
  may be nil, \<^verbatim>\<open>LastError\<close> a pointer that may be nil.
\<close>

datatype any = AnyBool bool | AnyString string | AnyInt int

record Auth =
  ID :: string
  Provider :: string
  Metadata :: "string \<rightharpoonup> any"
  Runtime :: "any option"
  LastRefreshedAt :: time
  NextRefreshAfter :: time
  LastError :: "string option"
  CreatedAt :: time
  UpdatedAt :: time

text \<open>\<^verbatim>\<open>Clone\<close> copies a record; a value of the model is its own copy.\<close>

definition Clone :: "Auth \<Rightarrow> Auth" where
  "Clone a = a"

text \<open>
  Of an executor the handlers call \<^verbatim>\<open>Refresh\<close> only. Its result \<^verbatim>\<open>(*Auth, error)\<close> is
  \<open>Inl msg\<close> for a non-nil error with message \<open>msg\<close>, and otherwise \<open>Inr r\<close> with \<open>r\<close> the
  record, \<open>None\<close> for nil.
\<close>

record ProviderExecutor =
  Identifier :: string
  Refresh :: "Auth \<Rightarrow> string + Auth option"

record Manager =
  auths :: "Auth list"
  executors :: "string \<rightharpoonup> ProviderExecutor"

record Handler =
  authManager :: "Manager option"

text \<open>
  Modelled from the spec: \<^verbatim>\<open>Manager.GetByID\<close> is not among the source files. The registry
  is the table of credential records in registration order, looked up by ID; the result
  of the model is \<open>None\<close> where the Go method answers not found or a nil record.
\<close>

definition GetByID :: "Manager \<Rightarrow> string \<Rightarrow> Auth option" where
  "GetByID m authID = find (\<lambda>a. ID a = authID) (auths m)"

text \<open>
  Modelled from the spec: \<^verbatim>\<open>Manager.Executor\<close> is not among the source files. The manager
  selects an executor strictly by the provider string, with no fallback.
\<close>

definition Executor :: "Manager \<Rightarrow> string \<Rightarrow> ProviderExecutor option" where
  "Executor m provider = executors m provider"

text \<open>
  Modelled from the spec: \<^verbatim>\<open>Manager.Update\<close> is not among the source files. It fails if
  the record no longer exists or its Provider changed, and otherwise replaces the stored
  record by the one supplied and returns it. The spec gives no text for the two errors;
  the messages here only tell them apart.
\<close>

definition Update :: "Manager \<Rightarrow> Auth \<Rightarrow> (string + Auth option) \<times> Manager" where
  "Update m a =
     (case GetByID m (ID a) of
        None \<Rightarrow> (Inl ''auth not found'', m)
      | Some old \<Rightarrow>
          if Provider old \<noteq> Provider a then (Inl ''auth provider changed'', m)
          else (Inr (Some a),
                m\<lparr>auths := map (\<lambda>x. if ID x = ID a then a else x) (auths m)\<rparr>))"

section \<open>The force-refresh handler\<close>

text \<open>
  The request body as \<^verbatim>\<open>ShouldBindJSON\<close> leaves it: the struct, and the error of the
  binding if any. An empty body is the error \<^verbatim>\<open>io.EOF\<close> and leaves the struct at its zero
  value.
\<close>

record forceRefreshRequest =
  req_AuthID :: string
  req_Provider :: string

datatype bind_error = EOF | InvalidJSON

type_synonym bound_body = "forceRefreshRequest \<times> bind_error option"

abbreviation StatusOK :: nat where "StatusOK \<equiv> 200"
abbreviation StatusBadRequest :: nat where "StatusBadRequest \<equiv> 400"
abbreviation StatusNotFound :: nat where "StatusNotFound \<equiv> 404"
abbreviation StatusInternalServerError :: nat where "StatusInternalServerError \<equiv> 500"

record 'b response =
  code :: nat
  body :: 'b

text \<open>
  The manager's \<^verbatim>\<open>Update\<close> is an argument \<open>upd\<close> of both handlers, so that what they do
  with its result is stated for every behaviour of that method: \<open>Inl msg\<close> for an error,
  \<open>Inr None\<close> for a nil record without error, \<open>Inr (Some p)\<close> for the persisted record.
\<close>

type_synonym update = "Manager \<Rightarrow> Auth \<Rightarrow> (string + Auth option) \<times> Manager"

definition manager_of :: "Handler option \<Rightarrow> Manager option" where
  "manager_of h = (case h of None \<Rightarrow> None | Some h' \<Rightarrow> authManager h')"

definition with_manager :: "Handler option \<Rightarrow> Manager \<Rightarrow> Handler option" where
  "with_manager h m = map_option (\<lambda>h'. h'\<lparr>authManager := Some m\<rparr>) h"

text \<open>
  The statements of both handlers that adjust the record an executor returned, one
  definition for each: \<^verbatim>\<open>if updated == nil { updated = auth.Clone() }\<close>, the three
  defaults for an empty ID, an empty Provider and a nil Runtime, and the four assignments
  that mark the record as refreshed now.
\<close>

definition orClone :: "Auth \<Rightarrow> Auth option \<Rightarrow> Auth" where
  "orClone auth updated = (case updated of None \<Rightarrow> Clone auth | Some u \<Rightarrow> u)"

definition defaultID :: "Auth \<Rightarrow> Auth \<Rightarrow> Auth" where
  "defaultID auth updated = (if ID updated = [] then updated\<lparr>ID := ID auth\<rparr> else updated)"

definition defaultProvider :: "Auth \<Rightarrow> Auth \<Rightarrow> Auth" where
  "defaultProvider auth updated =
     (if Provider updated = [] then updated\<lparr>Provider := Provider auth\<rparr> else updated)"

definition defaultRuntime :: "Auth \<Rightarrow> Auth \<Rightarrow> Auth" where
  "defaultRuntime auth updated =
     (if Runtime updated = None then updated\<lparr>Runtime := Runtime auth\<rparr> else updated)"

definition markRefreshed :: "time \<Rightarrow> Auth \<Rightarrow> Auth" where
  "markRefreshed now updated =
     updated\<lparr>LastRefreshedAt := now, NextRefreshAfter := zeroTime, LastError := None,
             UpdatedAt := now\<rparr>"

subsection \<open>The handler that answers with one response struct\<close>

record forceRefreshResponse =
  resp_AuthID :: string
  resp_Provider :: string
  Refreshed :: bool
  Error :: string
  resp_Auth :: "Auth option"

definition emptyResponse :: forceRefreshResponse where
  "emptyResponse =
     \<lparr>resp_AuthID = [], resp_Provider = [], Refreshed = False, Error = [], resp_Auth = None\<rparr>"

text \<open>
  \<^verbatim>\<open>PostForceRefreshTokens\<close> as the third unnamed source file has it (the file body that
  declares \<^verbatim>\<open>forceRefreshResponse\<close>). The handler's state is the manager it points to.
\<close>

definition PostForceRefreshTokens ::
  "update \<Rightarrow> time \<Rightarrow> Handler option \<Rightarrow> bound_body \<Rightarrow>
     forceRefreshResponse response \<times> Handler option" where
  "PostForceRefreshTokens upd now h bound =
     (case manager_of h of
        None \<Rightarrow>
          (\<lparr>code = StatusInternalServerError,
            body = emptyResponse\<lparr>Error := ''auth manager unavailable''\<rparr>\<rparr>, h)
      | Some m \<Rightarrow>
          let (req, err) = bound in
          if err \<noteq> None \<and> err \<noteq> Some EOF
          then (\<lparr>code = StatusBadRequest, body = emptyResponse\<lparr>Error := ''invalid body''\<rparr>\<rparr>, h)
          else
            let providerFilter = ToLower (TrimSpace (req_Provider req));
                authID = TrimSpace (req_AuthID req);
                result = emptyResponse\<lparr>resp_AuthID := authID, resp_Provider := providerFilter\<rparr>
            in
            if authID = []
            then (\<lparr>code = StatusBadRequest, body = result\<lparr>Error := ''auth_id is required''\<rparr>\<rparr>, h)
            else
              (case GetByID m authID of
                None \<Rightarrow> (\<lparr>code = StatusNotFound, body = result\<lparr>Error := ''auth not found''\<rparr>\<rparr>, h)
              | Some auth \<Rightarrow>
                  let result = result\<lparr>resp_AuthID := ID auth, resp_Provider := Provider auth\<rparr> in
                  if providerFilter \<noteq> [] \<and> \<not> EqualFold providerFilter (Provider auth)
                  then (\<lparr>code = StatusBadRequest,
                         body = result\<lparr>Error := ''provider mismatch''\<rparr>\<rparr>, h)
                  else
                    (case Executor m (TrimSpace (Provider auth)) of
                      None \<Rightarrow>
                        (\<lparr>code = StatusBadRequest,
                          body = result\<lparr>Error := ''executor not registered''\<rparr>\<rparr>, h)
                    | Some exec \<Rightarrow>
                        (case Refresh exec (Clone auth) of
                           Inl errRefresh \<Rightarrow>
                             (\<lparr>code = StatusBadRequest, body = result\<lparr>Error := errRefresh\<rparr>\<rparr>, h)
                         | Inr refreshed \<Rightarrow>
                             let updated = defaultID auth (orClone auth refreshed) in
                             if ID updated \<noteq> ID auth
                             then (\<lparr>code = StatusInternalServerError,
                                    body = result\<lparr>Error := ''executor returned mismatched auth id''\<rparr>\<rparr>,
                                   h)
                             else
                               let updated = defaultProvider auth updated in
                               if \<not> EqualFold (Provider updated) (Provider auth)
                               then (\<lparr>code = StatusInternalServerError,
                                      body = result\<lparr>Error :=
                                        ''executor returned mismatched provider''\<rparr>\<rparr>, h)
                               else
                                 let updated = markRefreshed now (defaultRuntime auth updated) in
                                 (case upd m updated of
                                   (Inl errUpdate, m') \<Rightarrow>
                                     (\<lparr>code = StatusInternalServerError,
                                       body = result\<lparr>Error := errUpdate\<rparr>\<rparr>, with_manager h m')
                                 | (Inr None, m') \<Rightarrow>
                                     (\<lparr>code = StatusInternalServerError,
                                       body = result\<lparr>Error :=
                                         ''failed to persist refreshed auth''\<rparr>\<rparr>,
                                      with_manager h m')
                                 | (Inr (Some persisted), m') \<Rightarrow>
                                     (\<lparr>code = StatusOK,
                                       body = result\<lparr>Refreshed := True,
                                                resp_Auth := Some (Clone persisted),
                                                resp_AuthID := ID persisted,
                                                resp_Provider := Provider persisted\<rparr>\<rparr>,
                                      with_manager h m'))))))"

subsection \<open>The handler that answers with a map\<close>

record forceRefreshResult =
  res_ID :: string
  res_Provider :: string
  res_Refreshed :: bool
  res_Error :: string
  res_Auth :: "Auth option"

text \<open>
  The two shapes of \<^verbatim>\<open>gin.H\<close> that this handler sends: \<^verbatim>\<open>{"error": msg}\<close> and
  \<^verbatim>\<open>{"results": [result]}\<close>.
\<close>

datatype ginH = ErrorH string | ResultsH "forceRefreshResult list"

fun results :: "ginH \<Rightarrow> forceRefreshResult list" where
  "results (ErrorH msg) = []"
| "results (ResultsH rs) = rs"

text \<open>
  \<^verbatim>\<open>PostForceRefreshTokens\<close> as \<^verbatim>\<open>internal/api/handlers/management/auth_refresh.go\<close> has it
  (the file body that declares \<^verbatim>\<open>forceRefreshResult\<close>).
\<close>

definition PostForceRefreshTokens_ginH ::
  "update \<Rightarrow> time \<Rightarrow> Handler option \<Rightarrow> bound_body \<Rightarrow> ginH response \<times> Handler option" where
  "PostForceRefreshTokens_ginH upd now h bound =
     (case manager_of h of
        None \<Rightarrow>
          (\<lparr>code = StatusInternalServerError, body = ErrorH ''auth manager unavailable''\<rparr>, h)
      | Some m \<Rightarrow>
          let (req, err) = bound in
          if err \<noteq> None \<and> err \<noteq> Some EOF
          then (\<lparr>code = StatusBadRequest, body = ErrorH ''invalid body''\<rparr>, h)
          else
            let providerFilter = ToLower (TrimSpace (req_Provider req));
                authID = TrimSpace (req_AuthID req)
            in
            if authID = []
            then (\<lparr>code = StatusBadRequest, body = ErrorH ''auth_id is required''\<rparr>, h)
            else
              (case GetByID m authID of
                None \<Rightarrow> (\<lparr>code = StatusNotFound, body = ErrorH ''auth not found''\<rparr>, h)
              | Some auth \<Rightarrow>
                  if providerFilter \<noteq> [] \<and> \<not> EqualFold providerFilter (Provider auth)
                  then (\<lparr>code = StatusBadRequest, body = ErrorH ''provider mismatch''\<rparr>, h)
                  else
                    let result = \<lparr>res_ID = ID auth, res_Provider = Provider auth,
                                  res_Refreshed = False, res_Error = [], res_Auth = None\<rparr>
                    in
                    (case Executor m (TrimSpace (Provider auth)) of
                      None \<Rightarrow>
                        (\<lparr>code = StatusBadRequest,
                          body = ResultsH [result\<lparr>res_Error := ''executor not registered''\<rparr>]\<rparr>,
                         h)
                    | Some exec \<Rightarrow>
                        (case Refresh exec (Clone auth) of
                           Inl errRefresh \<Rightarrow>
                             (\<lparr>code = StatusBadRequest,
                               body = ResultsH [result\<lparr>res_Error := errRefresh\<rparr>]\<rparr>, h)
                         | Inr refreshed \<Rightarrow>
                             let updated = markRefreshed now
                                             (defaultRuntime auth (orClone auth refreshed))
                             in
                             (case upd m updated of
                               (Inl errUpdate, m') \<Rightarrow>
                                 (\<lparr>code = StatusBadRequest,
                                   body = ResultsH [result\<lparr>res_Error := errUpdate\<rparr>]\<rparr>,
                                  with_manager h m')
                             | (Inr persisted, m') \<Rightarrow>
                                 (\<lparr>code = StatusOK,
                                   body = ResultsH [result\<lparr>res_Refreshed := True,
                                            res_Auth := Some (Clone updated)\<rparr>]\<rparr>,
                                  with_manager h m'))))))"

subsection \<open>The fixtures of the handler's tests\<close>

text \<open>
  Modelled from the spec: \<^verbatim>\<open>NewManager\<close>, \<^verbatim>\<open>Manager.Register\<close> and
  \<^verbatim>\<open>Manager.RegisterExecutor\<close>, which the tests call, are not among the source files. A new
  manager holds nothing; registration fails on an empty or duplicate ID and otherwise
  appends the record; registering an executor under an identifier overwrites the one
  before. The spec gives no text for the two errors of registration.
\<close>

definition NewManager :: Manager where
  "NewManager = \<lparr>auths = [], executors = Map.empty\<rparr>"

definition Register :: "Manager \<Rightarrow> Auth \<Rightarrow> (string + Auth) \<times> Manager" where
  "Register m a =
     (if ID a = [] then (Inl ''auth id is required'', m)
      else if GetByID m (ID a) \<noteq> None then (Inl ''auth already registered'', m)
      else (Inr a, m\<lparr>auths := auths m @ [a]\<rparr>))"

definition RegisterExecutor :: "Manager \<Rightarrow> ProviderExecutor \<Rightarrow> Manager" where
  "RegisterExecutor m e = m\<lparr>executors := (executors m)(Identifier e \<mapsto> e)\<rparr>"

text \<open>
  The credentials and executors that \<^verbatim>\<open>TestPostForceRefreshTokens\<close> and
  \<^verbatim>\<open>TestPostForceRefreshTokens_Errors\<close> build; \<open>newAuth\<close> is the struct literal with the
  fields it leaves out at their zero values.
\<close>

definition newAuth :: "string \<Rightarrow> string \<Rightarrow> (string \<rightharpoonup> any) \<Rightarrow> Auth" where
  "newAuth i p md =
     \<lparr>ID = i, Provider = p, Metadata = md, Runtime = None, LastRefreshedAt = zeroTime,
      NextRefreshAfter = zeroTime, LastError = None, CreatedAt = zeroTime,
      UpdatedAt = zeroTime\<rparr>"

definition baseAuth :: Auth where
  "baseAuth = newAuth ''codex-auth'' ''codex'' Map.empty"

definition codexAuth :: Auth where
  "codexAuth = newAuth ''codex-auth'' ''codex'' [''access_token'' \<mapsto> AnyString ''old'']"

text \<open>
  \<^verbatim>\<open>refreshOnlyExecutor.Refresh\<close> marks the metadata of a copy; \<open>stamp\<close> is the formatted
  time it writes under \<^verbatim>\<open>refreshed_at\<close>.
\<close>

definition refreshOnlyExecutor :: "string \<Rightarrow> string \<Rightarrow> ProviderExecutor" where
  "refreshOnlyExecutor provider stamp =
     \<lparr>Identifier = provider,
      Refresh = (\<lambda>auth. Inr (Some ((Clone auth)\<lparr>Metadata :=
                  (Metadata auth)(''refreshed'' \<mapsto> AnyBool True,
                                  ''refreshed_at'' \<mapsto> AnyString stamp)\<rparr>)))\<rparr>"

definition failingRefreshExecutor :: "string \<Rightarrow> string \<Rightarrow> ProviderExecutor" where
  "failingRefreshExecutor provider err = \<lparr>Identifier = provider, Refresh = (\<lambda>auth. Inl err)\<rparr>"

definition mismatchedRefreshExecutor :: "string \<Rightarrow> string \<Rightarrow> string \<Rightarrow> ProviderExecutor" where
  "mismatchedRefreshExecutor provider overrideID overrideProvider =
     \<lparr>Identifier = provider,
      Refresh = (\<lambda>auth.
        let updated = Clone auth;
            updated = (if overrideID \<noteq> [] then updated\<lparr>ID := overrideID\<rparr> else updated);
            updated = (if overrideProvider \<noteq> [] then updated\<lparr>Provider := overrideProvider\<rparr>
                       else updated)
        in Inr (Some updated))\<rparr>"

text \<open>An executor whose \<^verbatim>\<open>Refresh\<close> returns a nil record and a nil error.\<close>

definition nilRefreshExecutor :: "string \<Rightarrow> ProviderExecutor" where
  "nilRefreshExecutor provider = \<lparr>Identifier = provider, Refresh = (\<lambda>auth. Inr None)\<rparr>"

definition managerWith :: "Auth list \<Rightarrow> ProviderExecutor list \<Rightarrow> Manager" where
  "managerWith as es =
     fold (\<lambda>e m. RegisterExecutor m e) es (fold (\<lambda>a m. snd (Register m a)) as NewManager)"

definition handlerOf :: "Manager \<Rightarrow> Handler option" where
  "handlerOf m = Some \<lparr>authManager = Some m\<rparr>"

definition jsonBody :: "string \<Rightarrow> string \<Rightarrow> bound_body" where
  "jsonBody authID provider = (\<lparr>req_AuthID = authID, req_Provider = provider\<rparr>, None)"

section \<open>The admission gate of the refresh scheduler\<close>

text \<open>
  Modelled from the spec: the scheduler (\<^verbatim>\<open>Manager.checkRefreshes\<close>) and its ceiling
  \<^verbatim>\<open>refreshMaxConcurrency\<close> are not among the source files; only the test
  \<^verbatim>\<open>TestCheckRefreshesLimitsConcurrency\<close> is. The spec dispatches each due record as an
  independent unit of work and bounds the \<^verbatim>\<open>Executor.Refresh\<close> calls in progress by a
  counting admission gate of \<open>N\<close> slots: a unit acquires a slot before it calls
  \<^verbatim>\<open>Refresh\<close>, which blocks while all \<open>N\<close> are held, and releases it afterwards whatever
  the outcome. The units run concurrently; the model is the interleaving of their two
  events. A unit is the provider of its record and its phase; \<open>held\<close> counts the slots
  taken; an event that cannot happen in a state (an acquire at a full gate) has no
  successor.
\<close>

datatype outcome = Succeeded | Failed | Cancelled

datatype phase = Waiting | Refreshing | Finished outcome

record gate =
  units :: "(string \<times> phase) list"
  held :: nat

datatype event = Acquire nat | Release nat outcome

definition dispatch :: "string list \<Rightarrow> gate" where
  "dispatch providers = \<lparr>units = map (\<lambda>p. (p, Waiting)) providers, held = 0\<rparr>"

definition set_phase :: "gate \<Rightarrow> nat \<Rightarrow> phase \<Rightarrow> (string \<times> phase) list" where
  "set_phase g i ph = (units g)[i := (fst (units g ! i), ph)]"

definition step :: "nat \<Rightarrow> gate \<Rightarrow> event \<Rightarrow> gate option" where
  "step N g ev =
     (case ev of
        Acquire i \<Rightarrow>
          if i < length (units g) \<and> snd (units g ! i) = Waiting \<and> held g < N
          then Some \<lparr>units = set_phase g i Refreshing, held = held g + 1\<rparr>
          else None
      | Release i out \<Rightarrow>
          if i < length (units g) \<and> snd (units g ! i) = Refreshing
          then Some \<lparr>units = set_phase g i (Finished out), held = held g - 1\<rparr>
          else None)"

fun run :: "nat \<Rightarrow> gate \<Rightarrow> event list \<Rightarrow> gate option" where
  "run N g [] = Some g"
| "run N g (ev # evs) = (case step N g ev of None \<Rightarrow> None | Some g' \<Rightarrow> run N g' evs)"

definition in_flight :: "gate \<Rightarrow> nat" where
  "in_flight g = length (filter (\<lambda>u. snd u = Refreshing) (units g))"

definition gate_inv :: "nat \<Rightarrow> gate \<Rightarrow> bool" where
  "gate_inv N g = (in_flight g = held g \<and> held g \<le> N)"

section \<open>Identity strings: the generator and the validator\<close>

lemma unat_hi_nibble: "unat (drop_bit 4 (v::8 word)) = unat v div 16"
  by (simp add: drop_bit_eq_div unat_div)

lemma unat_lo_nibble: "unat ((v::8 word) AND 0x0f) = unat v mod 16"
proof -
  have "(0x0f::8 word) = mask 4" by (simp add: mask_eq_exp_minus_1)
  then have "v AND 0x0f = take_bit 4 v" by (simp add: take_bit_eq_mask)
  then show ?thesis by (simp add: take_bit_eq_mod unat_mod)
qed

lemma unat_byte_less: "unat (v::8 word) < 256"
  using unsigned_less[of v, where 'a=nat] by simp

lemma length_hextable: "length hextable = 16"
  by (simp add: hextable_def)

lemma distinct_hextable: "distinct hextable"
  by (simp add: hextable_def)

lemma hex_byte_hex: "list_all is_lower_hex (hex_byte v)"
proof -
  have "unat v div 16 < 16" using unat_byte_less[of v] by simp
  moreover have "unat v mod 16 < 16" by simp
  ultimately show ?thesis
    by (simp add: hex_byte_def is_lower_hex_def unat_hi_nibble unat_lo_nibble length_hextable)
qed

lemma length_hex_byte: "length (hex_byte v) = 2"
  by (simp add: hex_byte_def)

lemma hex_byte_inj: "hex_byte a = hex_byte b \<Longrightarrow> a = b"
proof -
  assume eq: "hex_byte a = hex_byte b"
  have ha: "unat a div 16 < 16" and hb: "unat b div 16 < 16"
    using unat_byte_less[of a] unat_byte_less[of b] by simp_all
  from eq have "hextable ! (unat a div 16) = hextable ! (unat b div 16)"
    and "hextable ! (unat a mod 16) = hextable ! (unat b mod 16)"
    by (simp_all add: hex_byte_def unat_hi_nibble unat_lo_nibble)
  with ha hb have "unat a div 16 = unat b div 16" and "unat a mod 16 = unat b mod 16"
    by (simp_all add: nth_eq_iff_index_eq distinct_hextable length_hextable)
  then have "unat a = unat b"
    by (metis div_mult_mod_eq)
  then show "a = b" by (simp add: word_unat_eq_iff)
qed

lemma length_EncodeToString: "length (EncodeToString bs) = 2 * length bs"
  by (induction bs) (simp_all add: EncodeToString_def length_hex_byte)

lemma EncodeToString_hex: "list_all is_lower_hex (EncodeToString bs)"
  by (induction bs) (simp_all add: EncodeToString_def hex_byte_hex)

lemma EncodeToString_inj:
  "EncodeToString xs = EncodeToString ys \<Longrightarrow> xs = ys"
proof (induction xs arbitrary: ys)
  case Nil
  then have "length (EncodeToString ys) = 0" by (simp add: EncodeToString_def)
  then show ?case by (simp add: length_EncodeToString)
next
  case (Cons x xs)
  from Cons.prems have "length (EncodeToString ys) = 2 * Suc (length xs)"
    by (metis length_EncodeToString length_Cons)
  then obtain y ys' where ys: "ys = y # ys'"
    by (cases ys) (simp_all add: length_EncodeToString)
  from Cons.prems ys have "hex_byte x @ EncodeToString xs = hex_byte y @ EncodeToString ys'"
    by (simp add: EncodeToString_def)
  then have "hex_byte x = hex_byte y" and "EncodeToString xs = EncodeToString ys'"
    by (simp_all add: length_hex_byte)
  then show ?case using Cons.IH ys hex_byte_inj by blast
qed

lemma hex_run_EncodeToString: "length bs = n \<Longrightarrow> hex_run (2 * n) (EncodeToString bs)"
  by (simp add: hex_run_def length_EncodeToString EncodeToString_hex)

lemma lit_Some_iff: "lit p s = Some r \<longleftrightarrow> s = p @ r"
  by (auto simp: lit_def) (metis append_take_drop_id)

lemma hexn_Some_iff: "hexn n s = Some r \<longleftrightarrow> (\<exists>d. s = d @ r \<and> hex_run n d)"
proof
  assume "hexn n s = Some r"
  then have "n \<le> length s" "list_all is_lower_hex (take n s)" "r = drop n s"
    by (auto simp: hexn_def split: if_splits)
  then have "s = take n s @ r \<and> hex_run n (take n s)"
    by (simp add: hex_run_def)
  then show "\<exists>d. s = d @ r \<and> hex_run n d" by blast
next
  assume "\<exists>d. s = d @ r \<and> hex_run n d"
  then show "hexn n s = Some r"
    by (auto simp: hexn_def hex_run_def)
qed


lemma bind_hexn: "Option.bind x (hexn n) = Some r \<longleftrightarrow> (\<exists>d. x = Some (d @ r) \<and> hex_run n d)"
  by (cases x) (auto simp: hexn_Some_iff)

lemma bind_lit: "Option.bind x (lit p) = Some r \<longleftrightarrow> x = Some (p @ r)"
  by (cases x) (auto simp: lit_Some_iff)

lemma isValidUserID_unfold:
  "isValidUserID s \<longleftrightarrow>
     (\<exists>e d c b a digest.
        s = ''user_'' @ digest @ ''_account__session_'' @ a @ ''-'' @ b @ ''-'' @ c @ ''-'' @ d @ ''-'' @ e \<and>
        hex_run 64 digest \<and> hex_run 8 a \<and> hex_run 4 b \<and> hex_run 4 c \<and> hex_run 4 d \<and> hex_run 12 e)"
  unfolding isValidUserID_def
  apply (simp only: bind_hexn bind_lit lit_Some_iff append_Nil2)
  apply (rule iffI)
   apply (elim exE conjE, intro exI conjI, assumption+)
  apply (elim exE conjE, intro exI conjI, assumption+)
  done

lemma isValidUserID_iff_conforming: "isValidUserID s \<longleftrightarrow> conforming s"
  unfolding isValidUserID_unfold conforming_def uuid_formatted_def
  by blast

lemma uuid_String_formatted: "length u = 16 \<Longrightarrow> uuid_formatted (uuid_String u)"
  unfolding uuid_formatted_def uuid_String_def
  apply (rule exI[of _ "EncodeToString (take 4 u)"])
  apply (rule exI[of _ "EncodeToString (take 2 (drop 4 u))"])
  apply (rule exI[of _ "EncodeToString (take 2 (drop 6 u))"])
  apply (rule exI[of _ "EncodeToString (take 2 (drop 8 u))"])
  apply (rule exI[of _ "EncodeToString (take 6 (drop 10 u))"])
  apply (simp add: hex_run_def length_EncodeToString EncodeToString_hex)
  done

lemma generateFakeUserID_conforming: "conforming (generateFakeUserID rnd)"
  unfolding conforming_def generateFakeUserID_def
  apply (rule exI[of _ "EncodeToString (map rnd [0..<32])"])
  apply (rule exI[of _ "uuid_String (map rnd [32..<48])"])
  apply (simp add: hex_run_def length_EncodeToString EncodeToString_hex uuid_String_formatted)
  done

lemma generateFakeUserID_inj_digest:
  assumes "generateFakeUserID r1 = generateFakeUserID r2" and "i < 32"
  shows "r1 i = r2 i"
proof -
  from assms(1) have "EncodeToString (map r1 [0..<32]) = EncodeToString (map r2 [0..<32])"
    by (simp add: generateFakeUserID_def length_EncodeToString)
  then have "map r1 [0..<32] = map r2 [0..<32]" by (rule EncodeToString_inj)
  with assms(2) show ?thesis by (simp del: upt_Suc)
qed

lemma generateFakeUserID_valid: "isValidUserID (generateFakeUserID rnd)"
  by (simp add: isValidUserID_iff_conforming generateFakeUserID_conforming)

lemma generateFakeUserID_nonempty: "generateFakeUserID rnd \<noteq> []"
  by (simp add: generateFakeUserID_def)

lemma generateFakeUserID_fresh:
  "\<exists>i<32. r1 i \<noteq> r2 i \<Longrightarrow> generateFakeUserID r1 \<noteq> generateFakeUserID r2"
  using generateFakeUserID_inj_digest by blast

text \<open>
  Claim C7. Every identity string that the generator produces conforms to the fixed pattern
  (the prefix \<^verbatim>\<open>user_\<close>, a digest of 64 lowercase hex digits, the separator
  \<^verbatim>\<open>_account__session_\<close> and a session segment in UUID format), the validator accepts it,
  and the validator accepts exactly the conforming strings.
\<close>

theorem identity_pattern:
  "conforming (generateFakeUserID rnd) \<and> isValidUserID (generateFakeUserID rnd) \<and>
   (isValidUserID s \<longleftrightarrow> conforming s)"
  by (simp add: generateFakeUserID_conforming generateFakeUserID_valid
      isValidUserID_iff_conforming)

text \<open>The validator and the generator on concrete strings.\<close>

lemma isValidUserID_examples:
  "isValidUserID ''user_0123456789abcdef0123456789abcdef0123456789abcdef0123456789abcdef_account__session_01234567-89ab-cdef-0123-456789abcdef''"
  "\<not> isValidUserID ''user_0123456789ABCDEF0123456789abcdef0123456789abcdef0123456789abcdef_account__session_01234567-89ab-cdef-0123-456789abcdef''"
  "\<not> isValidUserID ''user_0123456789abcdef0123456789abcdef0123456789abcdef0123456789abcdef_account__session_01234567-89ab-cdef-0123-456789abcde''"
  "\<not> isValidUserID ''user_0123456789abcdef0123456789abcdef0123456789abcdef0123456789abcdef_account__session_01234567-89ab-cdef-0123-456789abcdef0''"
  "\<not> isValidUserID []"
  by (simp_all add: isValidUserID_def lit_def hexn_def is_lower_hex_def hextable_def)

lemma generateFakeUserID_example:
  "generateFakeUserID (\<lambda>i. of_nat (i + 160)) =
     ''user_a0a1a2a3a4a5a6a7a8a9aaabacadaeafb0b1b2b3b4b5b6b7b8b9babbbcbdbebf_account__session_c0c1c2c3-c4c5-c6c7-c8c9-cacbcccdcecf''"
  by (simp add: generateFakeUserID_def uuid_String_def EncodeToString_def hex_byte_def
      hextable_def upt_rec)

section \<open>The identity cache\<close>

text \<open>
  Claim C10. A call of get-or-create with an empty scoping component (an empty provider or an
  empty model for the variant scoped by the pair, an empty API key for the variant scoped
  by the key) bypasses the cache: it returns a freshly generated identity and leaves the
  map as it was. Two such calls in a row whose random draws differ in a digest byte return
  different values.
\<close>

theorem cache_bypass:
  "(provider = [] \<or> model = [] \<longrightarrow>
      cachedUserID rnd now c provider model = (generateFakeUserID rnd, c)) \<and>
   cachedUserID_apiKey rnd now c [] = (generateFakeUserID rnd, c) \<and>
   ((provider = [] \<or> model = []) \<and> (\<exists>i<32. rnd i \<noteq> rnd' i) \<longrightarrow>
      fst (cachedUserID rnd now c provider model) \<noteq>
      fst (cachedUserID rnd' now' (snd (cachedUserID rnd now c provider model)) provider model)) \<and>
   ((\<exists>i<32. rnd i \<noteq> rnd' i) \<longrightarrow>
      fst (cachedUserID_apiKey rnd now c []) \<noteq>
      fst (cachedUserID_apiKey rnd' now' (snd (cachedUserID_apiKey rnd now c [])) []))"
  using generateFakeUserID_fresh[of rnd rnd']
  by (auto simp: cachedUserID_def cachedUserID_apiKey_def)

theorem cache_bypass_witness:
  "cachedUserID (\<lambda>i. 0) 100 Map.empty [] ''claude-3-5-sonnet'' =
     (generateFakeUserID (\<lambda>i. 0), Map.empty) \<and>
   cachedUserID (\<lambda>i. 0) 100 Map.empty ''claude'' [] =
     (generateFakeUserID (\<lambda>i. 0), Map.empty) \<and>
   cachedUserID_apiKey (\<lambda>i. 0) 100 Map.empty [] =
     (generateFakeUserID (\<lambda>i. 0), Map.empty) \<and>
   fst (cachedUserID_apiKey (\<lambda>i. 0) 100 Map.empty []) \<noteq>
   fst (cachedUserID_apiKey (\<lambda>i. 1) 200 (snd (cachedUserID_apiKey (\<lambda>i. 0) 100 Map.empty [])) [])"
proof -
  have d: "\<exists>i<(32::nat). ((\<lambda>i. 0) :: entropy) i \<noteq> ((\<lambda>i. 1) :: entropy) i"
    by (rule exI[of _ 0]) simp
  from cache_bypass[of "[]" "''claude-3-5-sonnet''" "\<lambda>i. 0" 100 Map.empty "\<lambda>i. 1" 200]
    cache_bypass[of "''claude''" "[]" "\<lambda>i. 0" 100 Map.empty "\<lambda>i. 1" 200] d
  show ?thesis by simp
qed

text \<open>
  Claim C8. The two variants differ in what a hit does to the stored entry. The variant scoped
  by the API key stores the entry with expire = now + TTL on every call with a non-empty
  key, and on a hit returns the stored value with only the expire rewritten. The variant
  scoped by provider and model returns a cached valid value and leaves the map as it was;
  a call of this variant either leaves the map unchanged or replaces the entry by a newly
  minted one, so an entry's expire stays what it was at creation until the entry is
  replaced.
\<close>

theorem ttl_renewal:
  "(apiKey \<noteq> [] \<longrightarrow>
      (\<exists>e. snd (cachedUserID_apiKey rnd now c apiKey) apiKey = Some e \<and>
           expire e = now + userIDTTL \<and>
           value' e = fst (cachedUserID_apiKey rnd now c apiKey))) \<and>
   (apiKey \<noteq> [] \<and> c apiKey = Some e \<and> value' e \<noteq> [] \<and> \<not> expire e < now \<and>
    isValidUserID (value' e) \<longrightarrow>
      cachedUserID_apiKey rnd now c apiKey =
        (value' e, c(apiKey \<mapsto> e\<lparr>expire := now + userIDTTL\<rparr>))) \<and>
   (provider \<noteq> [] \<and> model \<noteq> [] \<and> c (provider @ ''|'' @ model) = Some e \<and>
    now < expire e \<and> value' e \<noteq> [] \<and> isValidUserID (value' e) \<longrightarrow>
      cachedUserID rnd now c provider model = (value' e, c)) \<and>
   (provider \<noteq> [] \<and> model \<noteq> [] \<longrightarrow>
      snd (cachedUserID rnd now c provider model) = c \<or>
      snd (cachedUserID rnd now c provider model) =
        c(provider @ ''|'' @ model \<mapsto>
            \<lparr>value' = generateFakeUserID rnd, expire = now + userIDTTL\<rparr>))"
  by (auto simp: cachedUserID_def cachedUserID_apiKey_def index_def index_ok_def Let_def
      split: option.splits)

theorem ttl_renewal_witness:
  "cachedUserID_apiKey (\<lambda>i. 1) 100
      [''test-key-123'' \<mapsto> \<lparr>value' = generateFakeUserID (\<lambda>i. 0), expire = 500\<rparr>]
      ''test-key-123'' =
     (generateFakeUserID (\<lambda>i. 0),
      [''test-key-123'' \<mapsto> \<lparr>value' = generateFakeUserID (\<lambda>i. 0), expire = 100 + userIDTTL\<rparr>]) \<and>
   cachedUserID (\<lambda>i. 1) 100
      [''claude|claude-3-5-sonnet'' \<mapsto> \<lparr>value' = generateFakeUserID (\<lambda>i. 0), expire = 500\<rparr>]
      ''claude'' ''claude-3-5-sonnet'' =
     (generateFakeUserID (\<lambda>i. 0),
      [''claude|claude-3-5-sonnet'' \<mapsto> \<lparr>value' = generateFakeUserID (\<lambda>i. 0), expire = 500\<rparr>])"
proof -
  let ?e = "\<lparr>value' = generateFakeUserID (\<lambda>i. 0), expire = 500\<rparr>"
  have v: "isValidUserID (value' ?e)" "value' ?e \<noteq> []"
    by (simp_all add: generateFakeUserID_valid generateFakeUserID_nonempty)
  from ttl_renewal[of "''test-key-123''" "\<lambda>i. 1" 100 "[''test-key-123'' \<mapsto> ?e]" ?e
      "''claude''" "''claude-3-5-sonnet''"] v
  have 1: "cachedUserID_apiKey (\<lambda>i. 1) 100 [''test-key-123'' \<mapsto> ?e] ''test-key-123'' =
     (generateFakeUserID (\<lambda>i. 0),
      [''test-key-123'' \<mapsto> \<lparr>value' = generateFakeUserID (\<lambda>i. 0), expire = 100 + userIDTTL\<rparr>])"
    by simp
  from ttl_renewal[of "''test-key-123''" "\<lambda>i. 1" 100 "[''claude|claude-3-5-sonnet'' \<mapsto> ?e]" ?e
      "''claude''" "''claude-3-5-sonnet''"] v
  have 2: "cachedUserID (\<lambda>i. 1) 100 [''claude|claude-3-5-sonnet'' \<mapsto> ?e]
      ''claude'' ''claude-3-5-sonnet'' = (generateFakeUserID (\<lambda>i. 0), [''claude|claude-3-5-sonnet'' \<mapsto> ?e])"
    by simp
  from 1 2 show ?thesis by simp
qed

text \<open>
  The background cleanup deletes expired entries only, so a purge at or before the time of
  a call does not take away the value that the call would have reused.
\<close>

lemma purgeExpiredUserIDs_preserves_reuse:
  assumes "provider \<noteq> []" and "model \<noteq> []"
    and "c (provider @ ''|'' @ model) = Some e" and "now < expire e"
    and "isValidUserID (value' e)" and "t \<le> now"
  shows "cachedUserID rnd now (purgeExpiredUserIDs t c) provider model =
           (value' e, purgeExpiredUserIDs t c)"
proof -
  from assms(5) have "value' e \<noteq> []" by (auto simp: isValidUserID_def lit_def)
  moreover from assms(3,4,6) have "purgeExpiredUserIDs t c (provider @ ''|'' @ model) = Some e"
    by (simp add: purgeExpiredUserIDs_def)
  ultimately show ?thesis
    using assms(1,2,4,5) by (simp add: cachedUserID_def index_ok_def)
qed

text \<open>
  Claim C5. For a non-empty scoping key of \<^verbatim>\<open>cachedUserID(provider, model)\<close>: a call before the
  stored entry's expire returns the stored valid value and leaves the map as it was; after
  any call the key holds the value returned, and every later call before that entry's
  expire returns the same value again; a call that finds no entry, an expired entry or a
  stored value that fails validation mints a value, stores it with expire = now + TTL and
  returns it, and the minted value is well formed. The minted value differs from a stored
  value that fails validation, and from a stored value that was minted from a draw that
  differs from the present one in a digest byte.
\<close>

theorem cache_reuse_and_rotation:
  assumes "provider \<noteq> []" and "model \<noteq> []" and key: "key = provider @ ''|'' @ model"
  shows
    "(\<forall>e. c key = Some e \<and> now < expire e \<and> isValidUserID (value' e) \<longrightarrow>
        cachedUserID rnd now c provider model = (value' e, c)) \<and>
     (\<exists>e1. snd (cachedUserID rnd now c provider model) key = Some e1 \<and>
        value' e1 = fst (cachedUserID rnd now c provider model) \<and> now < expire e1 \<and>
        (\<forall>rnd2 now2. now2 < expire e1 \<longrightarrow>
           cachedUserID rnd2 now2 (snd (cachedUserID rnd now c provider model)) provider model =
             cachedUserID rnd now c provider model)) \<and>
     (c key = None \<or> (\<exists>e. c key = Some e \<and> (expire e \<le> now \<or> \<not> isValidUserID (value' e))) \<longrightarrow>
        cachedUserID rnd now c provider model =
          (generateFakeUserID rnd,
           c(key \<mapsto> \<lparr>value' = generateFakeUserID rnd, expire = now + userIDTTL\<rparr>)) \<and>
        isValidUserID (generateFakeUserID rnd)) \<and>
     (\<forall>e. c key = Some e \<longrightarrow>
        (\<not> isValidUserID (value' e) \<longrightarrow> generateFakeUserID rnd \<noteq> value' e) \<and>
        (\<forall>rnd0. value' e = generateFakeUserID rnd0 \<and> (\<exists>i<32. rnd i \<noteq> rnd0 i) \<longrightarrow>
           generateFakeUserID rnd \<noteq> value' e))"
proof -
  have nonempty: "\<And>v. isValidUserID v \<Longrightarrow> v \<noteq> []"
    by (auto simp: isValidUserID_def lit_def)
  have ttl: "0 < userIDTTL" by (simp add: userIDTTL_def)
  have hit: "\<And>e r t k. k key = Some e \<Longrightarrow> t < expire e \<Longrightarrow> isValidUserID (value' e) \<Longrightarrow>
      cachedUserID r t k provider model = (value' e, k)"
    using assms nonempty by (simp add: cachedUserID_def index_ok_def Let_def)
  have miss: "c key = None \<or> (\<exists>e. c key = Some e \<and> (expire e \<le> now \<or> \<not> isValidUserID (value' e))) \<Longrightarrow>
      cachedUserID rnd now c provider model =
          (generateFakeUserID rnd,
           c(key \<mapsto> \<lparr>value' = generateFakeUserID rnd, expire = now + userIDTTL\<rparr>))"
    using assms by (auto simp: cachedUserID_def index_ok_def Let_def)
  have second: "\<exists>e1. snd (cachedUserID rnd now c provider model) key = Some e1 \<and>
        value' e1 = fst (cachedUserID rnd now c provider model) \<and> now < expire e1 \<and>
        (\<forall>rnd2 now2. now2 < expire e1 \<longrightarrow>
           cachedUserID rnd2 now2 (snd (cachedUserID rnd now c provider model)) provider model =
             cachedUserID rnd now c provider model)"
  proof (cases "c key = None \<or> (\<exists>e. c key = Some e \<and> (expire e \<le> now \<or> \<not> isValidUserID (value' e)))")
    case True
    let ?e = "\<lparr>value' = generateFakeUserID rnd, expire = now + userIDTTL\<rparr>"
    from miss[OF True] have eq: "cachedUserID rnd now c provider model =
        (generateFakeUserID rnd, c(key \<mapsto> ?e))" .
    have "\<forall>rnd2 now2. now2 < expire ?e \<longrightarrow>
        cachedUserID rnd2 now2 (c(key \<mapsto> ?e)) provider model = (generateFakeUserID rnd, c(key \<mapsto> ?e))"
      using hit[of "c(key \<mapsto> ?e)" ?e] generateFakeUserID_valid[of rnd] by simp
    with eq ttl show ?thesis by (intro exI[of _ ?e]) simp
  next
    case False
    then obtain e where e: "c key = Some e" "now < expire e" "isValidUserID (value' e)"
      by (cases "c key") auto
    from hit[of c e now rnd] e have eq: "cachedUserID rnd now c provider model = (value' e, c)"
      by simp
    have "\<forall>rnd2 now2. now2 < expire e \<longrightarrow>
        cachedUserID rnd2 now2 c provider model = (value' e, c)"
      using hit[of c e] e by simp
    with eq e show ?thesis by (intro exI[of _ e]) simp
  qed
  have diff: "\<forall>e. c key = Some e \<longrightarrow>
        (\<not> isValidUserID (value' e) \<longrightarrow> generateFakeUserID rnd \<noteq> value' e) \<and>
        (\<forall>rnd0. value' e = generateFakeUserID rnd0 \<and> (\<exists>i<32. rnd i \<noteq> rnd0 i) \<longrightarrow>
           generateFakeUserID rnd \<noteq> value' e)"
    using generateFakeUserID_valid[of rnd] generateFakeUserID_fresh by metis
  from hit miss second diff generateFakeUserID_valid[of rnd] show ?thesis by blast
qed

theorem cache_reuse_and_rotation_witness:
  "cachedUserID (\<lambda>i. 0) 100 Map.empty ''claude'' ''claude-3-5-haiku'' =
     (generateFakeUserID (\<lambda>i. 0),
      [''claude|claude-3-5-haiku'' \<mapsto>
         \<lparr>value' = generateFakeUserID (\<lambda>i. 0), expire = 100 + userIDTTL\<rparr>]) \<and>
   cachedUserID (\<lambda>i. 1) 200
      (snd (cachedUserID (\<lambda>i. 0) 100 Map.empty ''claude'' ''claude-3-5-haiku''))
      ''claude'' ''claude-3-5-haiku'' =
     cachedUserID (\<lambda>i. 0) 100 Map.empty ''claude'' ''claude-3-5-haiku'' \<and>
   cachedUserID (\<lambda>i. 1) 100
      [''claude|claude-3-5-haiku'' \<mapsto> \<lparr>value' = generateFakeUserID (\<lambda>i. 0), expire = 40\<rparr>]
      ''claude'' ''claude-3-5-haiku'' =
     (generateFakeUserID (\<lambda>i. 1),
      [''claude|claude-3-5-haiku'' \<mapsto>
         \<lparr>value' = generateFakeUserID (\<lambda>i. 1), expire = 100 + userIDTTL\<rparr>]) \<and>
   generateFakeUserID (\<lambda>i. 1) \<noteq> generateFakeUserID (\<lambda>i. 0) \<and>
   isValidUserID (generateFakeUserID (\<lambda>i. 1))"
proof -
  let ?k = "''claude|claude-3-5-haiku''"
  let ?old = "\<lparr>value' = generateFakeUserID (\<lambda>i. 0), expire = 40\<rparr>"
  note a = cache_reuse_and_rotation[of "''claude''" "''claude-3-5-haiku''" ?k Map.empty 100
      "\<lambda>i. 0"]
  note b = cache_reuse_and_rotation[of "''claude''" "''claude-3-5-haiku''" ?k "[?k \<mapsto> ?old]" 100
      "\<lambda>i. 1"]
  have 1: "cachedUserID (\<lambda>i. 0) 100 Map.empty ''claude'' ''claude-3-5-haiku'' =
     (generateFakeUserID (\<lambda>i. 0),
      [?k \<mapsto> \<lparr>value' = generateFakeUserID (\<lambda>i. 0), expire = 100 + userIDTTL\<rparr>])"
    using a by simp
  from a obtain e1 where e1:
    "snd (cachedUserID (\<lambda>i. 0) 100 Map.empty ''claude'' ''claude-3-5-haiku'') ?k = Some e1"
    "\<forall>rnd2 now2. now2 < expire e1 \<longrightarrow>
       cachedUserID rnd2 now2 (snd (cachedUserID (\<lambda>i. 0) 100 Map.empty ''claude'' ''claude-3-5-haiku''))
         ''claude'' ''claude-3-5-haiku'' =
       cachedUserID (\<lambda>i. 0) 100 Map.empty ''claude'' ''claude-3-5-haiku''"
    by auto
  from e1(1) 1 have "expire e1 = 100 + userIDTTL" by auto
  then have "200 < expire e1" by (simp add: userIDTTL_def)
  with e1(2) have 2: "cachedUserID (\<lambda>i. 1) 200
      (snd (cachedUserID (\<lambda>i. 0) 100 Map.empty ''claude'' ''claude-3-5-haiku''))
      ''claude'' ''claude-3-5-haiku'' =
     cachedUserID (\<lambda>i. 0) 100 Map.empty ''claude'' ''claude-3-5-haiku''"
    by blast
  have 3: "cachedUserID (\<lambda>i. 1) 100 [?k \<mapsto> ?old] ''claude'' ''claude-3-5-haiku'' =
     (generateFakeUserID (\<lambda>i. 1),
      [?k \<mapsto> \<lparr>value' = generateFakeUserID (\<lambda>i. 1), expire = 100 + userIDTTL\<rparr>]) \<and>
     isValidUserID (generateFakeUserID (\<lambda>i. 1))"
    using b by simp
  have d: "\<exists>i<(32::nat). ((\<lambda>i. 1) :: entropy) i \<noteq> ((\<lambda>i. 0) :: entropy) i"
    by (rule exI[of _ 0]) simp
  have 4: "generateFakeUserID (\<lambda>i. 1) \<noteq> generateFakeUserID (\<lambda>i. 0)"
    using b d by auto
  from 1 2 3 4 show ?thesis by simp
qed

section \<open>The force-refresh handlers\<close>

lemma EqualFold_refl: "EqualFold s s"
  by (simp add: EqualFold_def)

lemma find_ID_Some: "find (\<lambda>a. ID a = k) xs = Some a \<Longrightarrow> ID a = k"
  by (induction xs) (auto split: if_splits)

lemma GetByID_ID: "GetByID m k = Some a \<Longrightarrow> ID a = k"
  unfolding GetByID_def by (rule find_ID_Some)

lemma find_replace:
  "find (\<lambda>x. ID x = k) (map (\<lambda>x. if ID x = ID a then a else x) xs) =
     (if k = ID a then map_option (\<lambda>x. a) (find (\<lambda>x. ID x = k) xs)
      else find (\<lambda>x. ID x = k) xs)"
  by (induction xs) auto

lemma Update_Inr:
  assumes "Update m a = (Inr p, m')"
  shows "p = Some a \<and> GetByID m' (ID a) = Some a \<and>
         (\<forall>k. k \<noteq> ID a \<longrightarrow> GetByID m' k = GetByID m k) \<and> executors m' = executors m"
  using assms
  by (auto simp: Update_def GetByID_def find_replace split: option.splits if_splits)

lemma Update_same:
  assumes "GetByID m k = Some auth" and "ID a = ID auth" and "Provider a = Provider auth"
  shows "Update m a =
           (Inr (Some a), m\<lparr>auths := map (\<lambda>x. if ID x = ID a then a else x) (auths m)\<rparr>)"
proof -
  from assms(1) have "ID auth = k" by (rule GetByID_ID)
  with assms show ?thesis by (simp add: Update_def)
qed

lemma manager_of_with_manager:
  "manager_of h = Some m \<Longrightarrow> manager_of (with_manager h m') = Some m'"
  by (cases h) (simp_all add: manager_of_def with_manager_def)

lemma markRefreshed_fields:
  "LastRefreshedAt (markRefreshed now u) = now" "NextRefreshAfter (markRefreshed now u) = zeroTime"
  "LastError (markRefreshed now u) = None" "UpdatedAt (markRefreshed now u) = now"
  "ID (markRefreshed now u) = ID u" "Provider (markRefreshed now u) = Provider u"
  "Metadata (markRefreshed now u) = Metadata u" "Runtime (markRefreshed now u) = Runtime u"
  "CreatedAt (markRefreshed now u) = CreatedAt u"
  by (simp_all add: markRefreshed_def)

lemma default_fields:
  "Metadata (defaultID auth u) = Metadata u" "Metadata (defaultProvider auth u) = Metadata u"
  "Metadata (defaultRuntime auth u) = Metadata u"
  "ID (defaultProvider auth u) = ID u" "ID (defaultRuntime auth u) = ID u"
  "Provider (defaultRuntime auth u) = Provider u"
  by (simp_all add: defaultID_def defaultProvider_def defaultRuntime_def)

lemma defaultRuntime_self: "defaultRuntime auth auth = auth"
  by (simp add: defaultRuntime_def)

lemma defaultID_self: "defaultID auth auth = auth"
  by (simp add: defaultID_def)

lemma defaultProvider_self: "defaultProvider auth auth = auth"
  by (simp add: defaultProvider_def)

text \<open>The definitions that evaluate the fixtures and the string functions.\<close>

lemmas fixture_defs = managerWith_def NewManager_def Register_def RegisterExecutor_def GetByID_def
  baseAuth_def codexAuth_def newAuth_def handlerOf_def jsonBody_def
  refreshOnlyExecutor_def failingRefreshExecutor_def mismatchedRefreshExecutor_def nilRefreshExecutor_def
  Clone_def Executor_def manager_of_def with_manager_def emptyResponse_def zeroTime_def
  orClone_def defaultID_def defaultProvider_def defaultRuntime_def markRefreshed_def Let_def

lemmas string_defs = TrimSpace_def isSpace_def ToLower_def toLowerChar_def upperLetters_def lowerLetters_def EqualFold_def

text \<open>
  Claim C3. With a manager present and a body that was bound (or was empty), both handlers map
  each failure before the refresh succeeds to its response, leaving the registry as it
  was: an auth_id that is empty after trimming gives bad-request and
  \<^verbatim>\<open>auth_id is required\<close>; an auth_id that the registry does not hold gives not-found and
  \<^verbatim>\<open>auth not found\<close>; a non-empty provider filter that does not match the record's Provider
  (compared by \<^verbatim>\<open>strings.EqualFold\<close>) gives bad-request and \<^verbatim>\<open>provider mismatch\<close>; a record
  for whose provider no executor is registered gives bad-request and
  \<^verbatim>\<open>executor not registered\<close>; an error of \<^verbatim>\<open>Executor.Refresh\<close> gives bad-request and the
  error's message as it is. Every response other than status OK has refreshed = false.
\<close>

theorem force_refresh_failures:
  assumes mgr: "manager_of h = Some m"
    and bind: "err = None \<or> err = Some EOF"
    and aid: "authID = TrimSpace (req_AuthID req)"
    and pf: "providerFilter = ToLower (TrimSpace (req_Provider req))"
  shows
    "(authID = [] \<longrightarrow>
        PostForceRefreshTokens upd now h (req, err) =
          (\<lparr>code = StatusBadRequest,
            body = \<lparr>resp_AuthID = [], resp_Provider = providerFilter, Refreshed = False,
                    Error = ''auth_id is required'', resp_Auth = None\<rparr>\<rparr>, h) \<and>
        PostForceRefreshTokens_ginH upd now h (req, err) =
          (\<lparr>code = StatusBadRequest, body = ErrorH ''auth_id is required''\<rparr>, h)) \<and>
     (authID \<noteq> [] \<and> GetByID m authID = None \<longrightarrow>
        PostForceRefreshTokens upd now h (req, err) =
          (\<lparr>code = StatusNotFound,
            body = \<lparr>resp_AuthID = authID, resp_Provider = providerFilter, Refreshed = False,
                    Error = ''auth not found'', resp_Auth = None\<rparr>\<rparr>, h) \<and>
        PostForceRefreshTokens_ginH upd now h (req, err) =
          (\<lparr>code = StatusNotFound, body = ErrorH ''auth not found''\<rparr>, h)) \<and>
     (\<forall>auth. authID \<noteq> [] \<and> GetByID m authID = Some auth \<and>
        providerFilter \<noteq> [] \<and> \<not> EqualFold providerFilter (Provider auth) \<longrightarrow>
        PostForceRefreshTokens upd now h (req, err) =
          (\<lparr>code = StatusBadRequest,
            body = \<lparr>resp_AuthID = ID auth, resp_Provider = Provider auth, Refreshed = False,
                    Error = ''provider mismatch'', resp_Auth = None\<rparr>\<rparr>, h) \<and>
        PostForceRefreshTokens_ginH upd now h (req, err) =
          (\<lparr>code = StatusBadRequest, body = ErrorH ''provider mismatch''\<rparr>, h)) \<and>
     (\<forall>auth. authID \<noteq> [] \<and> GetByID m authID = Some auth \<and>
        (providerFilter = [] \<or> EqualFold providerFilter (Provider auth)) \<and>
        Executor m (TrimSpace (Provider auth)) = None \<longrightarrow>
        PostForceRefreshTokens upd now h (req, err) =
          (\<lparr>code = StatusBadRequest,
            body = \<lparr>resp_AuthID = ID auth, resp_Provider = Provider auth, Refreshed = False,
                    Error = ''executor not registered'', resp_Auth = None\<rparr>\<rparr>, h) \<and>
        PostForceRefreshTokens_ginH upd now h (req, err) =
          (\<lparr>code = StatusBadRequest,
            body = ResultsH [\<lparr>res_ID = ID auth, res_Provider = Provider auth,
                     res_Refreshed = False, res_Error = ''executor not registered'',
                     res_Auth = None\<rparr>]\<rparr>, h)) \<and>
     (\<forall>auth exec errRefresh. authID \<noteq> [] \<and> GetByID m authID = Some auth \<and>
        (providerFilter = [] \<or> EqualFold providerFilter (Provider auth)) \<and>
        Executor m (TrimSpace (Provider auth)) = Some exec \<and>
        Refresh exec auth = Inl errRefresh \<longrightarrow>
        PostForceRefreshTokens upd now h (req, err) =
          (\<lparr>code = StatusBadRequest,
            body = \<lparr>resp_AuthID = ID auth, resp_Provider = Provider auth, Refreshed = False,
                    Error = errRefresh, resp_Auth = None\<rparr>\<rparr>, h) \<and>
        PostForceRefreshTokens_ginH upd now h (req, err) =
          (\<lparr>code = StatusBadRequest,
            body = ResultsH [\<lparr>res_ID = ID auth, res_Provider = Provider auth,
                     res_Refreshed = False, res_Error = errRefresh, res_Auth = None\<rparr>]\<rparr>, h)) \<and>
     (code (fst (PostForceRefreshTokens upd now h (req, err))) \<noteq> StatusOK \<longrightarrow>
        \<not> Refreshed (body (fst (PostForceRefreshTokens upd now h (req, err))))) \<and>
     (code (fst (PostForceRefreshTokens_ginH upd now h (req, err))) \<noteq> StatusOK \<longrightarrow>
        list_all (\<lambda>r. \<not> res_Refreshed r)
          (results (body (fst (PostForceRefreshTokens_ginH upd now h (req, err))))))"
proof (intro conjI impI allI)
  assume "authID = []"
  with mgr bind aid pf
  show "PostForceRefreshTokens upd now h (req, err) =
          (\<lparr>code = StatusBadRequest,
            body = \<lparr>resp_AuthID = [], resp_Provider = providerFilter, Refreshed = False,
                    Error = ''auth_id is required'', resp_Auth = None\<rparr>\<rparr>, h)"
    by (auto simp: PostForceRefreshTokens_def emptyResponse_def Let_def)
next
  assume "authID = []"
  with mgr bind aid pf
  show "PostForceRefreshTokens_ginH upd now h (req, err) =
          (\<lparr>code = StatusBadRequest, body = ErrorH ''auth_id is required''\<rparr>, h)"
    by (auto simp: PostForceRefreshTokens_ginH_def Let_def)
next
  assume "authID \<noteq> [] \<and> GetByID m authID = None"
  with mgr bind aid pf
  show "PostForceRefreshTokens upd now h (req, err) =
          (\<lparr>code = StatusNotFound,
            body = \<lparr>resp_AuthID = authID, resp_Provider = providerFilter, Refreshed = False,
                    Error = ''auth not found'', resp_Auth = None\<rparr>\<rparr>, h)"
    by (auto simp: PostForceRefreshTokens_def emptyResponse_def Let_def)
next
  assume "authID \<noteq> [] \<and> GetByID m authID = None"
  with mgr bind aid pf
  show "PostForceRefreshTokens_ginH upd now h (req, err) =
          (\<lparr>code = StatusNotFound, body = ErrorH ''auth not found''\<rparr>, h)"
    by (auto simp: PostForceRefreshTokens_ginH_def Let_def)
next
  fix auth
  assume "authID \<noteq> [] \<and> GetByID m authID = Some auth \<and>
        providerFilter \<noteq> [] \<and> \<not> EqualFold providerFilter (Provider auth)"
  with mgr bind aid pf
  show "PostForceRefreshTokens upd now h (req, err) =
          (\<lparr>code = StatusBadRequest,
            body = \<lparr>resp_AuthID = ID auth, resp_Provider = Provider auth, Refreshed = False,
                    Error = ''provider mismatch'', resp_Auth = None\<rparr>\<rparr>, h)"
    by (auto simp: PostForceRefreshTokens_def emptyResponse_def Let_def)
next
  fix auth
  assume "authID \<noteq> [] \<and> GetByID m authID = Some auth \<and>
        providerFilter \<noteq> [] \<and> \<not> EqualFold providerFilter (Provider auth)"
  with mgr bind aid pf
  show "PostForceRefreshTokens_ginH upd now h (req, err) =
          (\<lparr>code = StatusBadRequest, body = ErrorH ''provider mismatch''\<rparr>, h)"
    by (auto simp: PostForceRefreshTokens_ginH_def Let_def)
next
  fix auth
  assume "authID \<noteq> [] \<and> GetByID m authID = Some auth \<and>
        (providerFilter = [] \<or> EqualFold providerFilter (Provider auth)) \<and>
        Executor m (TrimSpace (Provider auth)) = None"
  with mgr bind aid pf
  show "PostForceRefreshTokens upd now h (req, err) =
          (\<lparr>code = StatusBadRequest,
            body = \<lparr>resp_AuthID = ID auth, resp_Provider = Provider auth, Refreshed = False,
                    Error = ''executor not registered'', resp_Auth = None\<rparr>\<rparr>, h)"
    by (auto simp: PostForceRefreshTokens_def emptyResponse_def Let_def)
next
  fix auth
  assume "authID \<noteq> [] \<and> GetByID m authID = Some auth \<and>
        (providerFilter = [] \<or> EqualFold providerFilter (Provider auth)) \<and>
        Executor m (TrimSpace (Provider auth)) = None"
  with mgr bind aid pf
  show "PostForceRefreshTokens_ginH upd now h (req, err) =
          (\<lparr>code = StatusBadRequest,
            body = ResultsH [\<lparr>res_ID = ID auth, res_Provider = Provider auth,
                     res_Refreshed = False, res_Error = ''executor not registered'',
                     res_Auth = None\<rparr>]\<rparr>, h)"
    by (auto simp: PostForceRefreshTokens_ginH_def Let_def)
next
  fix auth exec errRefresh
  assume "authID \<noteq> [] \<and> GetByID m authID = Some auth \<and>
        (providerFilter = [] \<or> EqualFold providerFilter (Provider auth)) \<and>
        Executor m (TrimSpace (Provider auth)) = Some exec \<and>
        Refresh exec auth = Inl errRefresh"
  with mgr bind aid pf
  show "PostForceRefreshTokens upd now h (req, err) =
          (\<lparr>code = StatusBadRequest,
            body = \<lparr>resp_AuthID = ID auth, resp_Provider = Provider auth, Refreshed = False,
                    Error = errRefresh, resp_Auth = None\<rparr>\<rparr>, h)"
    by (auto simp: PostForceRefreshTokens_def emptyResponse_def Let_def Clone_def)
next
  fix auth exec errRefresh
  assume "authID \<noteq> [] \<and> GetByID m authID = Some auth \<and>
        (providerFilter = [] \<or> EqualFold providerFilter (Provider auth)) \<and>
        Executor m (TrimSpace (Provider auth)) = Some exec \<and>
        Refresh exec auth = Inl errRefresh"
  with mgr bind aid pf
  show "PostForceRefreshTokens_ginH upd now h (req, err) =
          (\<lparr>code = StatusBadRequest,
            body = ResultsH [\<lparr>res_ID = ID auth, res_Provider = Provider auth,
                     res_Refreshed = False, res_Error = errRefresh, res_Auth = None\<rparr>]\<rparr>, h)"
    by (auto simp: PostForceRefreshTokens_ginH_def Let_def Clone_def)
next
  have "code (fst (PostForceRefreshTokens upd now h (req, err))) \<noteq> StatusOK \<longrightarrow>
        \<not> Refreshed (body (fst (PostForceRefreshTokens upd now h (req, err))))"
    by (simp add: PostForceRefreshTokens_def emptyResponse_def Let_def
        split: option.split sum.split prod.split)
  moreover assume "code (fst (PostForceRefreshTokens upd now h (req, err))) \<noteq> StatusOK"
  ultimately show "\<not> Refreshed (body (fst (PostForceRefreshTokens upd now h (req, err))))"
    by (rule mp)
next
  have "code (fst (PostForceRefreshTokens_ginH upd now h (req, err))) \<noteq> StatusOK \<longrightarrow>
        list_all (\<lambda>r. \<not> res_Refreshed r)
          (results (body (fst (PostForceRefreshTokens_ginH upd now h (req, err)))))"
    by (simp add: PostForceRefreshTokens_ginH_def Let_def
        split: option.split sum.split prod.split)
  moreover assume "code (fst (PostForceRefreshTokens_ginH upd now h (req, err))) \<noteq> StatusOK"
  ultimately show "list_all (\<lambda>r. \<not> res_Refreshed r)
          (results (body (fst (PostForceRefreshTokens_ginH upd now h (req, err)))))"
    by (rule mp)
qed

theorem force_refresh_failures_witness:
  "PostForceRefreshTokens Update 1000 (handlerOf NewManager) (jsonBody [] []) =
     (\<lparr>code = StatusBadRequest,
       body = \<lparr>resp_AuthID = [], resp_Provider = [], Refreshed = False,
               Error = ''auth_id is required'', resp_Auth = None\<rparr>\<rparr>, handlerOf NewManager) \<and>
   PostForceRefreshTokens_ginH Update 1000 (handlerOf NewManager) (jsonBody [] []) =
     (\<lparr>code = StatusBadRequest, body = ErrorH ''auth_id is required''\<rparr>, handlerOf NewManager) \<and>
   PostForceRefreshTokens Update 1000 (handlerOf NewManager) (jsonBody ''missing'' []) =
     (\<lparr>code = StatusNotFound,
       body = \<lparr>resp_AuthID = ''missing'', resp_Provider = [], Refreshed = False,
               Error = ''auth not found'', resp_Auth = None\<rparr>\<rparr>, handlerOf NewManager) \<and>
   PostForceRefreshTokens Update 1000
      (handlerOf (managerWith [baseAuth] [refreshOnlyExecutor ''codex'' ''t'']))
      (jsonBody ''codex-auth'' ''other'') =
     (\<lparr>code = StatusBadRequest,
       body = \<lparr>resp_AuthID = ''codex-auth'', resp_Provider = ''codex'', Refreshed = False,
               Error = ''provider mismatch'', resp_Auth = None\<rparr>\<rparr>,
      handlerOf (managerWith [baseAuth] [refreshOnlyExecutor ''codex'' ''t''])) \<and>
   PostForceRefreshTokens Update 1000 (handlerOf (managerWith [baseAuth] []))
      (jsonBody ''codex-auth'' []) =
     (\<lparr>code = StatusBadRequest,
       body = \<lparr>resp_AuthID = ''codex-auth'', resp_Provider = ''codex'', Refreshed = False,
               Error = ''executor not registered'', resp_Auth = None\<rparr>\<rparr>,
      handlerOf (managerWith [baseAuth] [])) \<and>
   PostForceRefreshTokens_ginH Update 1000 (handlerOf (managerWith [baseAuth] []))
      (jsonBody ''codex-auth'' []) =
     (\<lparr>code = StatusBadRequest,
       body = ResultsH [\<lparr>res_ID = ''codex-auth'', res_Provider = ''codex'',
                res_Refreshed = False, res_Error = ''executor not registered'',
                res_Auth = None\<rparr>]\<rparr>,
      handlerOf (managerWith [baseAuth] [])) \<and>
   PostForceRefreshTokens Update 1000
      (handlerOf (managerWith [baseAuth] [failingRefreshExecutor ''codex'' ''refresh failed'']))
      (jsonBody ''codex-auth'' []) =
     (\<lparr>code = StatusBadRequest,
       body = \<lparr>resp_AuthID = ''codex-auth'', resp_Provider = ''codex'', Refreshed = False,
               Error = ''refresh failed'', resp_Auth = None\<rparr>\<rparr>,
      handlerOf (managerWith [baseAuth] [failingRefreshExecutor ''codex'' ''refresh failed''])) \<and>
   \<not> Refreshed (body (fst (PostForceRefreshTokens Update 1000
      (handlerOf (managerWith [baseAuth] [failingRefreshExecutor ''codex'' ''refresh failed'']))
      (jsonBody ''codex-auth'' []))))"
proof -
  let ?r0 = "\<lparr>req_AuthID = [], req_Provider = []\<rparr>"
  let ?r1 = "\<lparr>req_AuthID = ''missing'', req_Provider = []\<rparr>"
  let ?r2 = "\<lparr>req_AuthID = ''codex-auth'', req_Provider = ''other''\<rparr>"
  let ?r3 = "\<lparr>req_AuthID = ''codex-auth'', req_Provider = []\<rparr>"
  let ?m2 = "managerWith [baseAuth] [refreshOnlyExecutor ''codex'' ''t'']"
  let ?m3 = "managerWith [baseAuth] []"
  let ?m4 = "managerWith [baseAuth] [failingRefreshExecutor ''codex'' ''refresh failed'']"
  note a = force_refresh_failures[of "handlerOf NewManager" NewManager None "[]" ?r0 "[]"
      Update 1000]
  note b = force_refresh_failures[of "handlerOf NewManager" NewManager None "''missing''" ?r1 "[]"
      Update 1000]
  note c = force_refresh_failures[of "handlerOf ?m2" ?m2 None "''codex-auth''" ?r2 "''other''"
      Update 1000]
  note d = force_refresh_failures[of "handlerOf ?m3" ?m3 None "''codex-auth''" ?r3 "[]"
      Update 1000]
  note e = force_refresh_failures[of "handlerOf ?m4" ?m4 None "''codex-auth''" ?r3 "[]"
      Update 1000]
  have 1: "PostForceRefreshTokens Update 1000 (handlerOf NewManager) (?r0, None) =
     (\<lparr>code = StatusBadRequest,
       body = \<lparr>resp_AuthID = [], resp_Provider = [], Refreshed = False,
               Error = ''auth_id is required'', resp_Auth = None\<rparr>\<rparr>, handlerOf NewManager) \<and>
   PostForceRefreshTokens_ginH Update 1000 (handlerOf NewManager) (?r0, None) =
     (\<lparr>code = StatusBadRequest, body = ErrorH ''auth_id is required''\<rparr>, handlerOf NewManager)"
    using a by (simp add: fixture_defs string_defs)
  have 2: "PostForceRefreshTokens Update 1000 (handlerOf NewManager) (?r1, None) =
     (\<lparr>code = StatusNotFound,
       body = \<lparr>resp_AuthID = ''missing'', resp_Provider = [], Refreshed = False,
               Error = ''auth not found'', resp_Auth = None\<rparr>\<rparr>, handlerOf NewManager)"
    using b by (simp add: fixture_defs string_defs)
  have 3: "PostForceRefreshTokens Update 1000 (handlerOf ?m2) (?r2, None) =
     (\<lparr>code = StatusBadRequest,
       body = \<lparr>resp_AuthID = ''codex-auth'', resp_Provider = ''codex'', Refreshed = False,
               Error = ''provider mismatch'', resp_Auth = None\<rparr>\<rparr>, handlerOf ?m2)"
    using c by (simp add: fixture_defs string_defs)
  have 4: "PostForceRefreshTokens Update 1000 (handlerOf ?m3) (?r3, None) =
     (\<lparr>code = StatusBadRequest,
       body = \<lparr>resp_AuthID = ''codex-auth'', resp_Provider = ''codex'', Refreshed = False,
               Error = ''executor not registered'', resp_Auth = None\<rparr>\<rparr>, handlerOf ?m3) \<and>
     PostForceRefreshTokens_ginH Update 1000 (handlerOf ?m3) (?r3, None) =
     (\<lparr>code = StatusBadRequest,
       body = ResultsH [\<lparr>res_ID = ''codex-auth'', res_Provider = ''codex'',
                res_Refreshed = False, res_Error = ''executor not registered'',
                res_Auth = None\<rparr>]\<rparr>, handlerOf ?m3)"
    using d by (simp add: fixture_defs string_defs)
  have 5: "PostForceRefreshTokens Update 1000 (handlerOf ?m4) (?r3, None) =
     (\<lparr>code = StatusBadRequest,
       body = \<lparr>resp_AuthID = ''codex-auth'', resp_Provider = ''codex'', Refreshed = False,
               Error = ''refresh failed'', resp_Auth = None\<rparr>\<rparr>, handlerOf ?m4)"
    using e by (simp add: fixture_defs string_defs)
  from 1 2 3 4 5 show ?thesis by (simp add: jsonBody_def)
qed

text \<open>
  Claim C4. Every force-refresh call that answers status OK went through a stored record and a
  successful \<^verbatim>\<open>Executor.Refresh\<close>, and leaves in the registry, under the ID of the refreshed
  record, a record with the Metadata that \<^verbatim>\<open>Refresh\<close> returned, LastRefreshedAt = now,
  NextRefreshAfter at the zero time, LastError nil and UpdatedAt = now; every other ID of
  the registry holds what it held; and the response has refreshed = true and carries that
  record. \<^verbatim>\<open>Manager.Update\<close> is the one modelled from the spec.
\<close>

theorem force_refresh_success:
  "(PostForceRefreshTokens Update now h bound = (resp, h') \<and> code resp = StatusOK \<longrightarrow>
      (\<exists>m auth exec refreshed stored m'.
         manager_of h = Some m \<and>
         GetByID m (TrimSpace (req_AuthID (fst bound))) = Some auth \<and>
         Executor m (TrimSpace (Provider auth)) = Some exec \<and>
         Refresh exec auth = Inr refreshed \<and>
         Metadata stored = Metadata (orClone auth refreshed) \<and>
         LastRefreshedAt stored = now \<and> NextRefreshAfter stored = zeroTime \<and>
         LastError stored = None \<and> UpdatedAt stored = now \<and> ID stored = ID auth \<and>
         manager_of h' = Some m' \<and> GetByID m' (ID auth) = Some stored \<and>
         (\<forall>k. k \<noteq> ID auth \<longrightarrow> GetByID m' k = GetByID m k) \<and>
         body resp = \<lparr>resp_AuthID = ID stored, resp_Provider = Provider stored,
                       Refreshed = True, Error = [], resp_Auth = Some stored\<rparr>)) \<and>
   (PostForceRefreshTokens_ginH Update now h bound = (resp2, h2) \<and> code resp2 = StatusOK \<longrightarrow>
      (\<exists>m auth exec refreshed stored m'.
         manager_of h = Some m \<and>
         GetByID m (TrimSpace (req_AuthID (fst bound))) = Some auth \<and>
         Executor m (TrimSpace (Provider auth)) = Some exec \<and>
         Refresh exec auth = Inr refreshed \<and>
         Metadata stored = Metadata (orClone auth refreshed) \<and>
         LastRefreshedAt stored = now \<and> NextRefreshAfter stored = zeroTime \<and>
         LastError stored = None \<and> UpdatedAt stored = now \<and>
         ID stored = ID (orClone auth refreshed) \<and>
         manager_of h2 = Some m' \<and> GetByID m' (ID stored) = Some stored \<and>
         (\<forall>k. k \<noteq> ID stored \<longrightarrow> GetByID m' k = GetByID m k) \<and>
         body resp2 = ResultsH [\<lparr>res_ID = ID auth, res_Provider = Provider auth,
                         res_Refreshed = True, res_Error = [], res_Auth = Some stored\<rparr>]))"
proof (intro conjI impI)
  assume a: "PostForceRefreshTokens Update now h bound = (resp, h') \<and> code resp = StatusOK"
  obtain req err where b: "bound = (req, err)" by (cases bound)
  from a b obtain m auth exec refreshed p m' where
    m: "manager_of h = Some m" and
    g: "GetByID m (TrimSpace (req_AuthID req)) = Some auth" and
    e: "Executor m (TrimSpace (Provider auth)) = Some exec" and
    r: "Refresh exec auth = Inr refreshed" and
    i: "ID (defaultID auth (orClone auth refreshed)) = ID auth" and
    u: "Update m (markRefreshed now (defaultRuntime auth (defaultProvider auth
          (defaultID auth (orClone auth refreshed))))) = (Inr (Some p), m')" and
    h': "h' = with_manager h m'" and
    resp: "body resp = \<lparr>resp_AuthID = ID p, resp_Provider = Provider p,
                       Refreshed = True, Error = [], resp_Auth = Some p\<rparr>"
    by (auto simp: PostForceRefreshTokens_def Let_def Clone_def emptyResponse_def
        split: option.splits sum.splits prod.splits if_splits)
  let ?s = "markRefreshed now (defaultRuntime auth (defaultProvider auth
          (defaultID auth (orClone auth refreshed))))"
  from Update_Inr[OF u] have p: "p = ?s" and
    g': "GetByID m' (ID ?s) = Some ?s" and
    o: "\<forall>k. k \<noteq> ID ?s \<longrightarrow> GetByID m' k = GetByID m k"
    by simp_all
  have ids: "ID ?s = ID auth" using i by (simp add: markRefreshed_fields default_fields)
  have md: "Metadata ?s = Metadata (orClone auth refreshed)"
    by (simp add: markRefreshed_fields default_fields)
  show "\<exists>m auth exec refreshed stored m'.
         manager_of h = Some m \<and>
         GetByID m (TrimSpace (req_AuthID (fst bound))) = Some auth \<and>
         Executor m (TrimSpace (Provider auth)) = Some exec \<and>
         Refresh exec auth = Inr refreshed \<and>
         Metadata stored = Metadata (orClone auth refreshed) \<and>
         LastRefreshedAt stored = now \<and> NextRefreshAfter stored = zeroTime \<and>
         LastError stored = None \<and> UpdatedAt stored = now \<and> ID stored = ID auth \<and>
         manager_of h' = Some m' \<and> GetByID m' (ID auth) = Some stored \<and>
         (\<forall>k. k \<noteq> ID auth \<longrightarrow> GetByID m' k = GetByID m k) \<and>
         body resp = \<lparr>resp_AuthID = ID stored, resp_Provider = Provider stored,
                       Refreshed = True, Error = [], resp_Auth = Some stored\<rparr>"
    apply (rule exI[of _ m], rule exI[of _ auth], rule exI[of _ exec],
        rule exI[of _ refreshed], rule exI[of _ ?s], rule exI[of _ m'])
    using m g e r md ids g' o resp p h' b manager_of_with_manager[OF m, of m']
    by (simp add: markRefreshed_fields)
next
  assume a: "PostForceRefreshTokens_ginH Update now h bound = (resp2, h2) \<and> code resp2 = StatusOK"
  obtain req err where b: "bound = (req, err)" by (cases bound)
  from a b obtain m auth exec refreshed p m' where
    m: "manager_of h = Some m" and
    g: "GetByID m (TrimSpace (req_AuthID req)) = Some auth" and
    e: "Executor m (TrimSpace (Provider auth)) = Some exec" and
    r: "Refresh exec auth = Inr refreshed" and
    u: "Update m (markRefreshed now (defaultRuntime auth (orClone auth refreshed))) = (Inr p, m')" and
    h': "h2 = with_manager h m'" and
    resp: "body resp2 = ResultsH [\<lparr>res_ID = ID auth, res_Provider = Provider auth,
                         res_Refreshed = True, res_Error = [],
                         res_Auth = Some (markRefreshed now (defaultRuntime auth (orClone auth refreshed)))\<rparr>]"
    by (auto simp: PostForceRefreshTokens_ginH_def Let_def Clone_def
        split: option.splits sum.splits prod.splits if_splits)
  let ?s = "markRefreshed now (defaultRuntime auth (orClone auth refreshed))"
  from Update_Inr[OF u] have
    g': "GetByID m' (ID ?s) = Some ?s" and
    o: "\<forall>k. k \<noteq> ID ?s \<longrightarrow> GetByID m' k = GetByID m k"
    by simp_all
  have ids: "ID ?s = ID (orClone auth refreshed)"
    by (simp add: markRefreshed_fields default_fields)
  have md: "Metadata ?s = Metadata (orClone auth refreshed)"
    by (simp add: markRefreshed_fields default_fields)
  show "\<exists>m auth exec refreshed stored m'.
         manager_of h = Some m \<and>
         GetByID m (TrimSpace (req_AuthID (fst bound))) = Some auth \<and>
         Executor m (TrimSpace (Provider auth)) = Some exec \<and>
         Refresh exec auth = Inr refreshed \<and>
         Metadata stored = Metadata (orClone auth refreshed) \<and>
         LastRefreshedAt stored = now \<and> NextRefreshAfter stored = zeroTime \<and>
         LastError stored = None \<and> UpdatedAt stored = now \<and>
         ID stored = ID (orClone auth refreshed) \<and>
         manager_of h2 = Some m' \<and> GetByID m' (ID stored) = Some stored \<and>
         (\<forall>k. k \<noteq> ID stored \<longrightarrow> GetByID m' k = GetByID m k) \<and>
         body resp2 = ResultsH [\<lparr>res_ID = ID auth, res_Provider = Provider auth,
                         res_Refreshed = True, res_Error = [], res_Auth = Some stored\<rparr>]"
    apply (rule exI[of _ m], rule exI[of _ auth], rule exI[of _ exec],
        rule exI[of _ refreshed], rule exI[of _ ?s], rule exI[of _ m'])
    using m g e r md ids g' o resp h' b manager_of_with_manager[OF m, of m']
    by (simp add: markRefreshed_fields)
qed

theorem force_refresh_success_witness:
  "(code (fst (PostForceRefreshTokens Update 1000
      (handlerOf (managerWith [codexAuth] [refreshOnlyExecutor ''codex'' ''t'']))
      (jsonBody ''codex-auth'' []))) = StatusOK \<and>
   (\<exists>stored m'.
      manager_of (snd (PostForceRefreshTokens Update 1000
        (handlerOf (managerWith [codexAuth] [refreshOnlyExecutor ''codex'' ''t'']))
        (jsonBody ''codex-auth'' []))) = Some m' \<and>
      GetByID m' ''codex-auth'' = Some stored \<and>
      Metadata stored ''refreshed'' = Some (AnyBool True) \<and>
      Metadata stored ''access_token'' = Some (AnyString ''old'') \<and>
      LastRefreshedAt stored = 1000 \<and> UpdatedAt stored = 1000 \<and>
      NextRefreshAfter stored = zeroTime \<and> LastError stored = None \<and>
      body (fst (PostForceRefreshTokens Update 1000
        (handlerOf (managerWith [codexAuth] [refreshOnlyExecutor ''codex'' ''t'']))
        (jsonBody ''codex-auth'' []))) =
        \<lparr>resp_AuthID = ''codex-auth'', resp_Provider = ''codex'', Refreshed = True,
         Error = [], resp_Auth = Some stored\<rparr>)) \<and>
   (code (fst (PostForceRefreshTokens_ginH Update 1000
      (handlerOf (managerWith [codexAuth] [refreshOnlyExecutor ''codex'' ''t'']))
      (jsonBody ''codex-auth'' []))) = StatusOK \<and>
   (\<exists>stored m'.
      manager_of (snd (PostForceRefreshTokens_ginH Update 1000
        (handlerOf (managerWith [codexAuth] [refreshOnlyExecutor ''codex'' ''t'']))
        (jsonBody ''codex-auth'' []))) = Some m' \<and>
      GetByID m' (ID stored) = Some stored \<and>
      LastRefreshedAt stored = 1000 \<and> UpdatedAt stored = 1000 \<and>
      NextRefreshAfter stored = zeroTime \<and> LastError stored = None \<and>
      body (fst (PostForceRefreshTokens_ginH Update 1000
        (handlerOf (managerWith [codexAuth] [refreshOnlyExecutor ''codex'' ''t'']))
        (jsonBody ''codex-auth'' []))) =
        ResultsH [\<lparr>res_ID = ''codex-auth'', res_Provider = ''codex'', res_Refreshed = True,
                   res_Error = [], res_Auth = Some stored\<rparr>]))"
proof -
  have new: "code (fst (PostForceRefreshTokens Update 1000
      (handlerOf (managerWith [codexAuth] [refreshOnlyExecutor ''codex'' ''t'']))
      (jsonBody ''codex-auth'' []))) = StatusOK \<and>
   (\<exists>stored m'.
      manager_of (snd (PostForceRefreshTokens Update 1000
        (handlerOf (managerWith [codexAuth] [refreshOnlyExecutor ''codex'' ''t'']))
        (jsonBody ''codex-auth'' []))) = Some m' \<and>
      GetByID m' ''codex-auth'' = Some stored \<and>
      Metadata stored ''refreshed'' = Some (AnyBool True) \<and>
      Metadata stored ''access_token'' = Some (AnyString ''old'') \<and>
      LastRefreshedAt stored = 1000 \<and> UpdatedAt stored = 1000 \<and>
      NextRefreshAfter stored = zeroTime \<and> LastError stored = None \<and>
      body (fst (PostForceRefreshTokens Update 1000
        (handlerOf (managerWith [codexAuth] [refreshOnlyExecutor ''codex'' ''t'']))
        (jsonBody ''codex-auth'' []))) =
        \<lparr>resp_AuthID = ''codex-auth'', resp_Provider = ''codex'', Refreshed = True,
         Error = [], resp_Auth = Some stored\<rparr>)"
  proof -
    let ?h = "handlerOf (managerWith [codexAuth] [refreshOnlyExecutor ''codex'' ''t''])"
    let ?b = "jsonBody ''codex-auth'' []"
    let ?p = "PostForceRefreshTokens Update 1000 ?h ?b"
    have ok: "code (fst ?p) = StatusOK"
      by (simp add: PostForceRefreshTokens_def Update_def fixture_defs string_defs)
    have "?p = (fst ?p, snd ?p) \<and> code (fst ?p) = StatusOK" using ok by simp
    with force_refresh_success[of 1000 ?h ?b "fst ?p" "snd ?p"]
    obtain m auth exec refreshed stored m' where
      f: "manager_of ?h = Some m"
        "GetByID m (TrimSpace (req_AuthID (fst ?b))) = Some auth"
        "Executor m (TrimSpace (Provider auth)) = Some exec"
        "Refresh exec auth = Inr refreshed"
        "Metadata stored = Metadata (orClone auth refreshed)"
        "LastRefreshedAt stored = 1000" "NextRefreshAfter stored = zeroTime"
        "LastError stored = None" "UpdatedAt stored = 1000" "ID stored = ID auth"
        "manager_of (snd ?p) = Some m'" "GetByID m' (ID auth) = Some stored"
        "body (fst ?p) = \<lparr>resp_AuthID = ID stored, resp_Provider = Provider stored,
                         Refreshed = True, Error = [], resp_Auth = Some stored\<rparr>"
      by blast
    from f(1) have m: "m = managerWith [codexAuth] [refreshOnlyExecutor ''codex'' ''t'']"
      by (simp add: handlerOf_def manager_of_def)
    from f(2) m have auth: "auth = codexAuth"
      by (simp add: fixture_defs string_defs)
    from f(3) m auth have exec: "exec = refreshOnlyExecutor ''codex'' ''t''"
      by (simp add: fixture_defs string_defs)
    from f(4) auth exec have r: "refreshed = Some (codexAuth\<lparr>Metadata :=
        (Metadata codexAuth)(''refreshed'' \<mapsto> AnyBool True, ''refreshed_at'' \<mapsto> AnyString ''t'')\<rparr>)"
      by (auto simp: refreshOnlyExecutor_def Clone_def)
    from f(5) r auth have md: "Metadata stored ''refreshed'' = Some (AnyBool True)"
      "Metadata stored ''access_token'' = Some (AnyString ''old'')"
      by (simp_all add: orClone_def codexAuth_def newAuth_def)
    have prov: "Provider stored = ''codex''"
      using f(13) by (simp add: PostForceRefreshTokens_def Update_def fixture_defs string_defs)
    from f(10) auth have "ID stored = ''codex-auth''" by (simp add: codexAuth_def newAuth_def)
    with f md prov auth ok show ?thesis
      by (intro conjI exI[of _ stored] exI[of _ m']) (simp_all add: codexAuth_def newAuth_def)
  qed
  have old: "code (fst (PostForceRefreshTokens_ginH Update 1000
      (handlerOf (managerWith [codexAuth] [refreshOnlyExecutor ''codex'' ''t'']))
      (jsonBody ''codex-auth'' []))) = StatusOK \<and>
   (\<exists>stored m'.
      manager_of (snd (PostForceRefreshTokens_ginH Update 1000
        (handlerOf (managerWith [codexAuth] [refreshOnlyExecutor ''codex'' ''t'']))
        (jsonBody ''codex-auth'' []))) = Some m' \<and>
      GetByID m' (ID stored) = Some stored \<and>
      LastRefreshedAt stored = 1000 \<and> UpdatedAt stored = 1000 \<and>
      NextRefreshAfter stored = zeroTime \<and> LastError stored = None \<and>
      body (fst (PostForceRefreshTokens_ginH Update 1000
        (handlerOf (managerWith [codexAuth] [refreshOnlyExecutor ''codex'' ''t'']))
        (jsonBody ''codex-auth'' []))) =
        ResultsH [\<lparr>res_ID = ''codex-auth'', res_Provider = ''codex'', res_Refreshed = True,
                   res_Error = [], res_Auth = Some stored\<rparr>])"
  proof -
    let ?h = "handlerOf (managerWith [codexAuth] [refreshOnlyExecutor ''codex'' ''t''])"
    let ?b = "jsonBody ''codex-auth'' []"
    let ?q = "PostForceRefreshTokens_ginH Update 1000 ?h ?b"
    have ok: "code (fst ?q) = StatusOK"
      by (simp add: PostForceRefreshTokens_ginH_def Update_def fixture_defs string_defs)
    have "?q = (fst ?q, snd ?q) \<and> code (fst ?q) = StatusOK" using ok by simp
    with force_refresh_success[of 1000 ?h ?b _ _ "fst ?q" "snd ?q"]
    obtain m auth stored m' where
      f: "manager_of ?h = Some m"
        "GetByID m (TrimSpace (req_AuthID (fst ?b))) = Some auth"
        "LastRefreshedAt stored = 1000" "NextRefreshAfter stored = zeroTime"
        "LastError stored = None" "UpdatedAt stored = 1000"
        "manager_of (snd ?q) = Some m'" "GetByID m' (ID stored) = Some stored"
        "body (fst ?q) = ResultsH [\<lparr>res_ID = ID auth, res_Provider = Provider auth,
                           res_Refreshed = True, res_Error = [], res_Auth = Some stored\<rparr>]"
      by blast
    from f(1) have m: "m = managerWith [codexAuth] [refreshOnlyExecutor ''codex'' ''t'']"
      by (simp add: handlerOf_def manager_of_def)
    from f(2) m have auth: "auth = codexAuth"
      by (simp add: fixture_defs string_defs)
    from f auth ok show ?thesis
      by (intro conjI exI[of _ stored] exI[of _ m']) (simp_all add: codexAuth_def newAuth_def)
  qed
  from new old show ?thesis by (rule conjI)
qed

text \<open>
  Claim C1, as amended. In the handler that checks what the executor returned (the
  \<^verbatim>\<open>PostForceRefreshTokens\<close> with \<^verbatim>\<open>forceRefreshResponse\<close>): when \<^verbatim>\<open>Executor.Refresh\<close>
  succeeds with a record whose non-empty ID is not the ID of the stored record, the answer
  is internal-error with \<^verbatim>\<open>executor returned mismatched auth id\<close>; when the ID is empty or
  equal and the non-empty Provider is not equal to the stored Provider under
  \<^verbatim>\<open>strings.EqualFold\<close>, the answer is internal-error with
  \<^verbatim>\<open>executor returned mismatched provider\<close>; in both cases refreshed = false and the
  registry is left as it was, whatever \<^verbatim>\<open>Manager.Update\<close> would do.
\<close>

theorem force_refresh_contract_violation:
  assumes mgr: "manager_of h = Some m"
    and bind: "err = None \<or> err = Some EOF"
    and aid: "TrimSpace (req_AuthID req) \<noteq> []"
    and get: "GetByID m (TrimSpace (req_AuthID req)) = Some auth"
    and filter: "ToLower (TrimSpace (req_Provider req)) = [] \<or>
                 EqualFold (ToLower (TrimSpace (req_Provider req))) (Provider auth)"
    and exec: "Executor m (TrimSpace (Provider auth)) = Some exec"
    and refresh: "Refresh exec auth = Inr (Some u)"
  shows
    "(ID u \<noteq> [] \<and> ID u \<noteq> ID auth \<longrightarrow>
        PostForceRefreshTokens upd now h (req, err) =
          (\<lparr>code = StatusInternalServerError,
            body = \<lparr>resp_AuthID = ID auth, resp_Provider = Provider auth, Refreshed = False,
                    Error = ''executor returned mismatched auth id'', resp_Auth = None\<rparr>\<rparr>, h)) \<and>
     ((ID u = [] \<or> ID u = ID auth) \<and> Provider u \<noteq> [] \<and>
      \<not> EqualFold (Provider u) (Provider auth) \<longrightarrow>
        PostForceRefreshTokens upd now h (req, err) =
          (\<lparr>code = StatusInternalServerError,
            body = \<lparr>resp_AuthID = ID auth, resp_Provider = Provider auth, Refreshed = False,
                    Error = ''executor returned mismatched provider'', resp_Auth = None\<rparr>\<rparr>, h))"
  using assms
  by (auto simp: PostForceRefreshTokens_def emptyResponse_def Let_def Clone_def orClone_def
      defaultID_def defaultProvider_def)

theorem force_refresh_contract_violation_witness:
  "PostForceRefreshTokens Update 1000
      (handlerOf (managerWith [baseAuth] [mismatchedRefreshExecutor ''codex'' ''other-id'' []]))
      (jsonBody ''codex-auth'' []) =
     (\<lparr>code = StatusInternalServerError,
       body = \<lparr>resp_AuthID = ''codex-auth'', resp_Provider = ''codex'', Refreshed = False,
               Error = ''executor returned mismatched auth id'', resp_Auth = None\<rparr>\<rparr>,
      handlerOf (managerWith [baseAuth] [mismatchedRefreshExecutor ''codex'' ''other-id'' []])) \<and>
   PostForceRefreshTokens Update 1000
      (handlerOf (managerWith [baseAuth] [mismatchedRefreshExecutor ''codex'' [] ''other'']))
      (jsonBody ''codex-auth'' []) =
     (\<lparr>code = StatusInternalServerError,
       body = \<lparr>resp_AuthID = ''codex-auth'', resp_Provider = ''codex'', Refreshed = False,
               Error = ''executor returned mismatched provider'', resp_Auth = None\<rparr>\<rparr>,
      handlerOf (managerWith [baseAuth] [mismatchedRefreshExecutor ''codex'' [] ''other'']))"
proof -
  let ?e1 = "mismatchedRefreshExecutor ''codex'' ''other-id'' []"
  let ?e2 = "mismatchedRefreshExecutor ''codex'' [] ''other''"
  let ?req = "\<lparr>req_AuthID = ''codex-auth'', req_Provider = []\<rparr>"
  have 1: "PostForceRefreshTokens Update 1000 (handlerOf (managerWith [baseAuth] [?e1])) (?req, None) =
     (\<lparr>code = StatusInternalServerError,
       body = \<lparr>resp_AuthID = ID baseAuth, resp_Provider = Provider baseAuth, Refreshed = False,
               Error = ''executor returned mismatched auth id'', resp_Auth = None\<rparr>\<rparr>,
      handlerOf (managerWith [baseAuth] [?e1]))"
    using force_refresh_contract_violation[of "handlerOf (managerWith [baseAuth] [?e1])"
        "managerWith [baseAuth] [?e1]" None ?req baseAuth ?e1 "baseAuth\<lparr>ID := ''other-id''\<rparr>"
        Update 1000]
    by (simp add: fixture_defs string_defs)
  have 2: "PostForceRefreshTokens Update 1000 (handlerOf (managerWith [baseAuth] [?e2])) (?req, None) =
     (\<lparr>code = StatusInternalServerError,
       body = \<lparr>resp_AuthID = ID baseAuth, resp_Provider = Provider baseAuth, Refreshed = False,
               Error = ''executor returned mismatched provider'', resp_Auth = None\<rparr>\<rparr>,
      handlerOf (managerWith [baseAuth] [?e2]))"
    using force_refresh_contract_violation[of "handlerOf (managerWith [baseAuth] [?e2])"
        "managerWith [baseAuth] [?e2]" None ?req baseAuth ?e2 "baseAuth\<lparr>Provider := ''other''\<rparr>"
        Update 1000]
    by (simp add: fixture_defs string_defs)
  from 1 2 show ?thesis by (simp add: jsonBody_def baseAuth_def newAuth_def)
qed

text \<open>
  The claim as it was stated fails for a Provider that differs in letter case only: the
  executor of the test, overriding the Provider \<^verbatim>\<open>codex\<close> by \<^verbatim>\<open>CODEX\<close>, returns a record whose
  Provider differs from the stored one, and the handler does not answer
  \<^verbatim>\<open>executor returned mismatched provider\<close> but hands the record to \<^verbatim>\<open>Manager.Update\<close> and
  answers with the error of that call.
\<close>

theorem force_refresh_provider_case_counterexample:
  "Refresh (mismatchedRefreshExecutor ''codex'' [] ''CODEX'') baseAuth =
     Inr (Some (baseAuth\<lparr>Provider := ''CODEX''\<rparr>)) \<and>
   Provider (baseAuth\<lparr>Provider := ''CODEX''\<rparr>) \<noteq> Provider baseAuth \<and>
   ID (baseAuth\<lparr>Provider := ''CODEX''\<rparr>) = ID baseAuth \<and>
   Error (body (fst (PostForceRefreshTokens Update 1000
      (handlerOf (managerWith [baseAuth] [mismatchedRefreshExecutor ''codex'' [] ''CODEX'']))
      (jsonBody ''codex-auth'' [])))) \<noteq> ''executor returned mismatched provider'' \<and>
   Error (body (fst (PostForceRefreshTokens Update 1000
      (handlerOf (managerWith [baseAuth] [mismatchedRefreshExecutor ''codex'' [] ''CODEX'']))
      (jsonBody ''codex-auth'' [])))) \<noteq> ''executor returned mismatched auth id'' \<and>
   PostForceRefreshTokens Update 1000
      (handlerOf (managerWith [baseAuth] [mismatchedRefreshExecutor ''codex'' [] ''CODEX'']))
      (jsonBody ''codex-auth'' []) =
     (\<lparr>code = StatusInternalServerError,
       body = \<lparr>resp_AuthID = ''codex-auth'', resp_Provider = ''codex'', Refreshed = False,
               Error = ''auth provider changed'', resp_Auth = None\<rparr>\<rparr>,
      handlerOf (managerWith [baseAuth] [mismatchedRefreshExecutor ''codex'' [] ''CODEX'']))"
  by (simp add: PostForceRefreshTokens_def Update_def fixture_defs string_defs)

text \<open>
  What the two handlers do when \<^verbatim>\<open>Executor.Refresh\<close> has succeeded, the record has passed
  the checks, and the registry update fails with an error: the handler with
  \<^verbatim>\<open>forceRefreshResponse\<close> answers internal-error with the message of that error and
  refreshed = false.
\<close>

lemma PostForceRefreshTokens_update_error:
  assumes mgr: "manager_of h = Some m"
    and bind: "err = None \<or> err = Some EOF"
    and aid: "TrimSpace (req_AuthID req) \<noteq> []"
    and get: "GetByID m (TrimSpace (req_AuthID req)) = Some auth"
    and filter: "ToLower (TrimSpace (req_Provider req)) = [] \<or>
                 EqualFold (ToLower (TrimSpace (req_Provider req))) (Provider auth)"
    and exec: "Executor m (TrimSpace (Provider auth)) = Some exec"
    and refresh: "Refresh exec auth = Inr refreshed"
    and idok: "ID (defaultID auth (orClone auth refreshed)) = ID auth"
    and provok: "EqualFold (Provider (defaultProvider auth (defaultID auth (orClone auth refreshed))))
                   (Provider auth)"
    and upd: "upd m (markRefreshed now (defaultRuntime auth (defaultProvider auth
                (defaultID auth (orClone auth refreshed))))) = (Inl errUpdate, m')"
  shows "PostForceRefreshTokens upd now h (req, err) =
           (\<lparr>code = StatusInternalServerError,
             body = \<lparr>resp_AuthID = ID auth, resp_Provider = Provider auth, Refreshed = False,
                     Error = errUpdate, resp_Auth = None\<rparr>\<rparr>, with_manager h m')"
  using assms
  by (auto simp: PostForceRefreshTokens_def emptyResponse_def Let_def Clone_def)

text \<open>
  When the update returns a nil record without an error, the same handler answers
  internal-error with a message of its own.
\<close>

lemma PostForceRefreshTokens_update_nil:
  assumes mgr: "manager_of h = Some m"
    and bind: "err = None \<or> err = Some EOF"
    and aid: "TrimSpace (req_AuthID req) \<noteq> []"
    and get: "GetByID m (TrimSpace (req_AuthID req)) = Some auth"
    and filter: "ToLower (TrimSpace (req_Provider req)) = [] \<or>
                 EqualFold (ToLower (TrimSpace (req_Provider req))) (Provider auth)"
    and exec: "Executor m (TrimSpace (Provider auth)) = Some exec"
    and refresh: "Refresh exec auth = Inr refreshed"
    and idok: "ID (defaultID auth (orClone auth refreshed)) = ID auth"
    and provok: "EqualFold (Provider (defaultProvider auth (defaultID auth (orClone auth refreshed))))
                   (Provider auth)"
    and upd: "upd m (markRefreshed now (defaultRuntime auth (defaultProvider auth
                (defaultID auth (orClone auth refreshed))))) = (Inr None, m')"
  shows "PostForceRefreshTokens upd now h (req, err) =
           (\<lparr>code = StatusInternalServerError,
             body = \<lparr>resp_AuthID = ID auth, resp_Provider = Provider auth, Refreshed = False,
                     Error = ''failed to persist refreshed auth'', resp_Auth = None\<rparr>\<rparr>,
            with_manager h m')"
  using assms
  by (auto simp: PostForceRefreshTokens_def emptyResponse_def Let_def Clone_def)

text \<open>
  The handler of \<^verbatim>\<open>auth_refresh.go\<close> answers bad-request with that message, and with a
  manager present it answers internal-error on no input at all; it has no check of the ID
  or the Provider that the executor returned.
\<close>

lemma PostForceRefreshTokens_ginH_update_error:
  assumes mgr: "manager_of h = Some m"
    and bind: "err = None \<or> err = Some EOF"
    and aid: "TrimSpace (req_AuthID req) \<noteq> []"
    and get: "GetByID m (TrimSpace (req_AuthID req)) = Some auth"
    and filter: "ToLower (TrimSpace (req_Provider req)) = [] \<or>
                 EqualFold (ToLower (TrimSpace (req_Provider req))) (Provider auth)"
    and exec: "Executor m (TrimSpace (Provider auth)) = Some exec"
    and refresh: "Refresh exec auth = Inr refreshed"
    and upd: "upd m (markRefreshed now (defaultRuntime auth (orClone auth refreshed))) =
                (Inl errUpdate, m')"
  shows "PostForceRefreshTokens_ginH upd now h (req, err) =
           (\<lparr>code = StatusBadRequest,
             body = ResultsH [\<lparr>res_ID = ID auth, res_Provider = Provider auth,
                      res_Refreshed = False, res_Error = errUpdate, res_Auth = None\<rparr>]\<rparr>,
            with_manager h m')"
  using assms
  by (auto simp: PostForceRefreshTokens_ginH_def Let_def Clone_def)

lemma PostForceRefreshTokens_ginH_never_internal_error:
  "manager_of h = Some m \<Longrightarrow>
     code (fst (PostForceRefreshTokens_ginH upd now h bound)) \<noteq> StatusInternalServerError"
  by (simp add: PostForceRefreshTokens_ginH_def Let_def
      split: option.split sum.split prod.split)

text \<open>
  Claim C2. When \<^verbatim>\<open>Executor.Refresh\<close> succeeds and the registry update that follows fails,
  the operation answers internal-error with the update error and refreshed = false. The
  handler of \<^verbatim>\<open>auth_refresh.go\<close> does not: on the input of the test case
  \<^verbatim>\<open>mismatched provider from executor\<close>, where the update fails because the Provider
  changed, it answers bad-request with the update error. (The test expects
  internal-error; the handler with \<^verbatim>\<open>forceRefreshResponse\<close> gives it.)
\<close>

theorem ginH_update_failure_bad_request:
  "Update (managerWith [baseAuth] [mismatchedRefreshExecutor ''codex'' [] ''other''])
      (markRefreshed 1000 (baseAuth\<lparr>Provider := ''other''\<rparr>)) =
     (Inl ''auth provider changed'',
      managerWith [baseAuth] [mismatchedRefreshExecutor ''codex'' [] ''other'']) \<and>
   PostForceRefreshTokens_ginH Update 1000
      (handlerOf (managerWith [baseAuth] [mismatchedRefreshExecutor ''codex'' [] ''other'']))
      (jsonBody ''codex-auth'' []) =
     (\<lparr>code = StatusBadRequest,
       body = ResultsH [\<lparr>res_ID = ''codex-auth'', res_Provider = ''codex'',
                res_Refreshed = False, res_Error = ''auth provider changed'',
                res_Auth = None\<rparr>]\<rparr>,
      handlerOf (managerWith [baseAuth] [mismatchedRefreshExecutor ''codex'' [] ''other'']))"
  by (simp add: PostForceRefreshTokens_ginH_def Update_def fixture_defs string_defs)

text \<open>
  Claim C9. When \<^verbatim>\<open>Executor.Refresh\<close> returns a nil record and a nil error, both handlers
  treat the refresh as successful: they go on with a copy of the stored record, mark it
  (LastRefreshedAt and UpdatedAt set to now, NextRefreshAfter and LastError cleared), store
  it through \<^verbatim>\<open>Manager.Update\<close> (the one modelled from the spec), and answer status OK
  with refreshed = true and the marked record.
\<close>

theorem force_refresh_nil_record:
  assumes mgr: "manager_of h = Some m"
    and bind: "err = None \<or> err = Some EOF"
    and aid: "TrimSpace (req_AuthID req) \<noteq> []"
    and get: "GetByID m (TrimSpace (req_AuthID req)) = Some auth"
    and filter: "ToLower (TrimSpace (req_Provider req)) = [] \<or>
                 EqualFold (ToLower (TrimSpace (req_Provider req))) (Provider auth)"
    and exec: "Executor m (TrimSpace (Provider auth)) = Some exec"
    and refresh: "Refresh exec auth = Inr None"
    and m': "m' = m\<lparr>auths := map (\<lambda>x. if ID x = ID auth then markRefreshed now auth else x)
                                (auths m)\<rparr>"
  shows
    "PostForceRefreshTokens Update now h (req, err) =
       (\<lparr>code = StatusOK,
         body = \<lparr>resp_AuthID = ID auth, resp_Provider = Provider auth, Refreshed = True,
                 Error = [], resp_Auth = Some (markRefreshed now auth)\<rparr>\<rparr>,
        with_manager h m') \<and>
     PostForceRefreshTokens_ginH Update now h (req, err) =
       (\<lparr>code = StatusOK,
         body = ResultsH [\<lparr>res_ID = ID auth, res_Provider = Provider auth,
                  res_Refreshed = True, res_Error = [],
                  res_Auth = Some (markRefreshed now auth)\<rparr>]\<rparr>,
        with_manager h m') \<and>
     GetByID m' (ID auth) = Some (markRefreshed now auth) \<and>
     markRefreshed now auth =
       auth\<lparr>LastRefreshedAt := now, NextRefreshAfter := zeroTime, LastError := None,
            UpdatedAt := now\<rparr>"
proof -
  let ?s = "markRefreshed now auth"
  have ids: "ID ?s = ID auth" "Provider ?s = Provider auth"
    by (simp_all add: markRefreshed_fields)
  have u: "Update m ?s = (Inr (Some ?s), m')"
    using Update_same[OF get ids] m' by (simp add: ids)
  from Update_Inr[OF u] have g: "GetByID m' (ID auth) = Some ?s" by (simp add: ids)
  have new: "PostForceRefreshTokens Update now h (req, err) =
       (\<lparr>code = StatusOK,
         body = \<lparr>resp_AuthID = ID auth, resp_Provider = Provider auth, Refreshed = True,
                 Error = [], resp_Auth = Some ?s\<rparr>\<rparr>, with_manager h m')"
    using mgr bind aid get filter exec refresh u
    by (auto simp: PostForceRefreshTokens_def emptyResponse_def Let_def Clone_def orClone_def
        defaultID_self defaultProvider_self defaultRuntime_self EqualFold_refl ids)
  have old: "PostForceRefreshTokens_ginH Update now h (req, err) =
       (\<lparr>code = StatusOK,
         body = ResultsH [\<lparr>res_ID = ID auth, res_Provider = Provider auth,
                  res_Refreshed = True, res_Error = [], res_Auth = Some ?s\<rparr>]\<rparr>,
        with_manager h m')"
    using mgr bind aid get filter exec refresh u
    by (auto simp: PostForceRefreshTokens_ginH_def Let_def Clone_def orClone_def
        defaultRuntime_self)
  from new old g show ?thesis by (simp add: markRefreshed_def)
qed

theorem force_refresh_nil_record_witness:
  "PostForceRefreshTokens Update 1000
      (handlerOf (managerWith [codexAuth] [nilRefreshExecutor ''codex'']))
      (jsonBody ''codex-auth'' []) =
     (\<lparr>code = StatusOK,
       body = \<lparr>resp_AuthID = ''codex-auth'', resp_Provider = ''codex'', Refreshed = True,
               Error = [],
               resp_Auth = Some (codexAuth\<lparr>LastRefreshedAt := 1000, UpdatedAt := 1000\<rparr>)\<rparr>\<rparr>,
      handlerOf (managerWith [codexAuth\<lparr>LastRefreshedAt := 1000, UpdatedAt := 1000\<rparr>]
                   [nilRefreshExecutor ''codex''])) \<and>
   PostForceRefreshTokens_ginH Update 1000
      (handlerOf (managerWith [codexAuth] [nilRefreshExecutor ''codex'']))
      (jsonBody ''codex-auth'' []) =
     (\<lparr>code = StatusOK,
       body = ResultsH [\<lparr>res_ID = ''codex-auth'', res_Provider = ''codex'',
                res_Refreshed = True, res_Error = [],
                res_Auth = Some (codexAuth\<lparr>LastRefreshedAt := 1000, UpdatedAt := 1000\<rparr>)\<rparr>]\<rparr>,
      handlerOf (managerWith [codexAuth\<lparr>LastRefreshedAt := 1000, UpdatedAt := 1000\<rparr>]
                   [nilRefreshExecutor ''codex'']))"
  using force_refresh_nil_record[of
      "handlerOf (managerWith [codexAuth] [nilRefreshExecutor ''codex''])"
      "managerWith [codexAuth] [nilRefreshExecutor ''codex'']" None
      "\<lparr>req_AuthID = ''codex-auth'', req_Provider = []\<rparr>" codexAuth
      "nilRefreshExecutor ''codex''"
      "managerWith [codexAuth\<lparr>LastRefreshedAt := 1000, UpdatedAt := 1000\<rparr>]
                   [nilRefreshExecutor ''codex'']" 1000]
  by (simp add: fixture_defs string_defs)

section \<open>The admission gate\<close>

lemma count_update:
  "i < length xs \<Longrightarrow>
     length (filter P (xs[i := y])) + (if P (xs ! i) then 1 else 0) =
     length (filter P xs) + (if P y then 1 else 0)"
proof (induction xs arbitrary: i)
  case Nil
  then show ?case by simp
next
  case (Cons x xs)
  show ?case
  proof (cases i)
    case 0
    then show ?thesis by simp
  next
    case (Suc j)
    with Cons.prems have "j < length xs" by simp
    from Cons.IH[OF this] Suc show ?thesis by simp
  qed
qed

lemma step_inv:
  assumes "gate_inv N g" and "step N g ev = Some g'"
  shows "gate_inv N g'"
proof (cases ev)
  case (Acquire i)
  with assms(2) have i: "i < length (units g)" "snd (units g ! i) = Waiting" "held g < N"
    and g': "g' = \<lparr>units = set_phase g i Refreshing, held = held g + 1\<rparr>"
    by (auto simp: step_def split: if_splits)
  from count_update[OF i(1), of "\<lambda>u. snd u = Refreshing" "(fst (units g ! i), Refreshing)"] i(2)
  have "in_flight g' = in_flight g + 1"
    by (simp add: in_flight_def g' set_phase_def)
  with assms(1) i(3) g' show ?thesis by (simp add: gate_inv_def)
next
  case (Release i out)
  with assms(2) have i: "i < length (units g)" "snd (units g ! i) = Refreshing"
    and g': "g' = \<lparr>units = set_phase g i (Finished out), held = held g - 1\<rparr>"
    by (auto simp: step_def split: if_splits)
  from count_update[OF i(1), of "\<lambda>u. snd u = Refreshing" "(fst (units g ! i), Finished out)"] i(2)
  have "in_flight g' + 1 = in_flight g"
    by (simp add: in_flight_def g' set_phase_def)
  with assms(1) g' show ?thesis by (auto simp: gate_inv_def)
qed

lemma run_inv: "gate_inv N g \<Longrightarrow> run N g evs = Some g' \<Longrightarrow> gate_inv N g'"
proof (induction evs arbitrary: g)
  case Nil
  then show ?case by simp
next
  case (Cons ev evs)
  from Cons.prems(2) obtain g1 where s: "step N g ev = Some g1" and r: "run N g1 evs = Some g'"
    by (cases "step N g ev") simp_all
  from step_inv[OF Cons.prems(1) s] have "gate_inv N g1" .
  from Cons.IH[OF this r] show ?case .
qed

lemma dispatch_inv: "gate_inv N (dispatch providers)"
  by (simp add: gate_inv_def dispatch_def in_flight_def filter_map comp_def)

lemma release_enabled:
  assumes "gate_inv N g" and "i < length (units g)" and "snd (units g ! i) = Refreshing"
  shows "\<exists>g'. step N g (Release i out) = Some g' \<and> held g' + 1 = held g \<and>
              in_flight g' + 1 = in_flight g"
proof -
  let ?g' = "\<lparr>units = set_phase g i (Finished out), held = held g - 1\<rparr>"
  have s: "step N g (Release i out) = Some ?g'" using assms(2,3) by (simp add: step_def)
  from count_update[OF assms(2), of "\<lambda>u. snd u = Refreshing" "(fst (units g ! i), Finished out)"]
    assms(3)
  have f: "in_flight ?g' + 1 = in_flight g" by (simp add: in_flight_def set_phase_def)
  with assms(1) have "held ?g' + 1 = held g" by (simp add: gate_inv_def)
  with s f show ?thesis by blast
qed

text \<open>
  Claim C6. In every state that the dispatched units of a tick can reach, whatever the number
  of due records and whatever their providers, at most \<open>N\<close> calls of \<^verbatim>\<open>Executor.Refresh\<close> are
  in progress, and their number is the number of slots held; and a unit that is in its
  \<^verbatim>\<open>Refresh\<close> call can always release its slot, whether the call succeeded, failed or was
  cancelled, which frees exactly one slot.
\<close>

theorem gate_bound:
  assumes "run N (dispatch providers) evs = Some g"
  shows "in_flight g \<le> N \<and> in_flight g = held g \<and>
         (\<forall>i out. i < length (units g) \<and> snd (units g ! i) = Refreshing \<longrightarrow>
            (\<exists>g'. step N g (Release i out) = Some g' \<and> held g' + 1 = held g \<and>
                  in_flight g' + 1 = in_flight g))"
proof -
  from run_inv[OF dispatch_inv assms] have inv: "gate_inv N g" .
  then show ?thesis using release_enabled[OF inv] by (auto simp: gate_inv_def)
qed

theorem gate_bound_witness:
  "run 2 (dispatch [''codex'', ''claude'', ''gemini''])
       [Acquire 0, Acquire 1, Release 0 Failed, Acquire 2] =
     Some \<lparr>units = [(''codex'', Finished Failed), (''claude'', Refreshing), (''gemini'', Refreshing)],
           held = 2\<rparr> \<and>
   step 2 \<lparr>units = [(''codex'', Refreshing), (''claude'', Refreshing), (''gemini'', Waiting)], held = 2\<rparr>
       (Acquire 2) = None \<and>
   in_flight \<lparr>units = [(''codex'', Finished Failed), (''claude'', Refreshing), (''gemini'', Refreshing)],
           held = 2\<rparr> \<le> 2"
proof -
  have r: "run 2 (dispatch [''codex'', ''claude'', ''gemini''])
       [Acquire 0, Acquire 1, Release 0 Failed, Acquire 2] =
     Some \<lparr>units = [(''codex'', Finished Failed), (''claude'', Refreshing), (''gemini'', Refreshing)],
           held = 2\<rparr>"
    by (simp add: dispatch_def step_def set_phase_def)
  from gate_bound[OF r] r show ?thesis by (simp add: step_def)
qed

end
